theory Spec2Isabelle
  imports Complex_Main "HOL-Library.Word" "HOL-Library.Monad_Syntax"
begin

unbundle bit_operations_syntax

section \<open>Machine integers\<close>

text \<open>
  The fixed-width integer types of \<^verbatim>\<open>stdint.h\<close>.  A signed type is a word read
  with \<open>sint\<close>.  Unsigned arithmetic wraps around; signed overflow is undefined behaviour
  in C and is modelled as the value \<open>None\<close>.
\<close>

type_synonym u8 = "8 word"
type_synonym u16 = "16 word"
type_synonym u32 = "32 word"
type_synonym i8 = "8 word"
type_synonym i32 = "32 word"

definition i32_chk :: "int \<Rightarrow> i32 option" where
  "i32_chk v = (if - (2 ^ 31) \<le> v \<and> v < 2 ^ 31 then Some (word_of_int v) else None)"

definition i32_add :: "i32 \<Rightarrow> i32 \<Rightarrow> i32 option" where
  "i32_add a b = i32_chk (sint a + sint b)"

definition i32_sub :: "i32 \<Rightarrow> i32 \<Rightarrow> i32 option" where
  "i32_sub a b = i32_chk (sint a - sint b)"

definition i32_mul :: "i32 \<Rightarrow> i32 \<Rightarrow> i32 option" where
  "i32_mul a b = i32_chk (sint a * sint b)"

section \<open>IEEE 754 binary floating point\<close>

text \<open>
  The driver computes in C \<^verbatim>\<open>float\<close> and \<^verbatim>\<open>double\<close>.  They are modelled as IEEE 754
  binary32 and binary64 with round-to-nearest, ties-to-even, every operation rounded to
  the type the C expression has (\<^verbatim>\<open>FLT_EVAL_METHOD\<close> 0) and no product contracted with a
  sum into one fused operation.  A value is a rational number,
  an infinity or a NaN.  The sign of zero is not modelled: the driver never divides by a
  variable and never inspects a sign, so it could not be observed.
\<close>

datatype fp = Fin rat | PInf | NInf | NaN

definition pow2 :: "int \<Rightarrow> rat" where
  "pow2 e = (if 0 \<le> e then 2 ^ nat e else 1 / 2 ^ nat (- e))"

text \<open>Number of binary digits of a positive integer.\<close>

function blen :: "int \<Rightarrow> int" where
  "blen n = (if n \<le> 0 then 0 else 1 + blen (n div 2))"
  by auto
termination
  by (relation "measure nat") auto

declare blen.simps [simp del]

text \<open>The binary exponent of a positive rational: \<open>2 ^ e \<le> x < 2 ^ (e + 1)\<close>.\<close>

definition ilog2 :: "rat \<Rightarrow> int" where
  "ilog2 x = (if 1 \<le> x then blen \<lfloor>x\<rfloor> - 1 else - blen (\<lceil>1 / x\<rceil> - 1))"

text \<open>Rounding to the nearest integer, a tie to the even one.\<close>

definition round_pick :: "int \<Rightarrow> rat \<Rightarrow> int" where
  "round_pick f q =
     (if q - of_int f < 1 / 2 then f else if 1 / 2 < q - of_int f then f + 1
      else if even f then f else f + 1)"

definition round_even :: "rat \<Rightarrow> int" where
  "round_even q = round_pick \<lfloor>q\<rfloor> q"

text \<open>
  Rounding of an exact result to a format with \<open>p\<close> significand bits and exponent range
  \<open>emin .. emax\<close>: the exponent is clipped at \<open>emin\<close> (gradual underflow), the quotient by
  the unit in the last place is rounded to the nearest integer, and a result beyond the
  largest finite number is an infinity.
\<close>

definition ulp_exp :: "nat \<Rightarrow> int \<Rightarrow> rat \<Rightarrow> int" where
  "ulp_exp p emin x = max (ilog2 \<bar>x\<bar>) emin - int p + 1"

definition round_to :: "rat \<Rightarrow> rat \<Rightarrow> rat" where
  "round_to u x = of_int (round_even (x / u)) * u"

definition overflow_to_inf :: "int \<Rightarrow> rat \<Rightarrow> fp" where
  "overflow_to_inf emax r =
     (if pow2 (emax + 1) \<le> \<bar>r\<bar> then (if 0 < r then PInf else NInf) else Fin r)"

definition fround :: "nat \<Rightarrow> int \<Rightarrow> int \<Rightarrow> rat \<Rightarrow> fp" where
  "fround p emin emax x =
     (if x = 0 then Fin 0 else overflow_to_inf emax (round_to (pow2 (ulp_exp p emin x)) x))"

definition rnd32 :: "rat \<Rightarrow> fp" where
  "rnd32 = fround 24 (- 126) 127"

definition rnd64 :: "rat \<Rightarrow> fp" where
  "rnd64 = fround 53 (- 1022) 1023"

fun fp_neg :: "fp \<Rightarrow> fp" where
  "fp_neg (Fin a) = Fin (- a)"
| "fp_neg PInf = NInf"
| "fp_neg NInf = PInf"
| "fp_neg NaN = NaN"

fun fp_add :: "(rat \<Rightarrow> fp) \<Rightarrow> fp \<Rightarrow> fp \<Rightarrow> fp" where
  "fp_add r (Fin a) (Fin b) = r (a + b)"
| "fp_add r NaN y = NaN"
| "fp_add r x NaN = NaN"
| "fp_add r PInf NInf = NaN"
| "fp_add r NInf PInf = NaN"
| "fp_add r PInf y = PInf"
| "fp_add r NInf y = NInf"
| "fp_add r x PInf = PInf"
| "fp_add r x NInf = NInf"

definition fp_sub :: "(rat \<Rightarrow> fp) \<Rightarrow> fp \<Rightarrow> fp \<Rightarrow> fp" where
  "fp_sub r x y = fp_add r x (fp_neg y)"

fun fp_negative :: "fp \<Rightarrow> bool" where
  "fp_negative (Fin a) = (a < 0)"
| "fp_negative NInf = True"
| "fp_negative x = False"

fun fp_mul :: "(rat \<Rightarrow> fp) \<Rightarrow> fp \<Rightarrow> fp \<Rightarrow> fp" where
  "fp_mul r (Fin a) (Fin b) = r (a * b)"
| "fp_mul r x y =
     (if x = NaN \<or> y = NaN \<or> x = Fin 0 \<or> y = Fin 0 then NaN
      else if fp_negative x = fp_negative y then PInf else NInf)"

text \<open>Division by a finite nonzero constant (the driver only divides by \<^verbatim>\<open>100.0f\<close>).\<close>

fun fp_div_const :: "(rat \<Rightarrow> fp) \<Rightarrow> fp \<Rightarrow> rat \<Rightarrow> fp" where
  "fp_div_const r (Fin a) c = r (a / c)"
| "fp_div_const r NaN c = NaN"
| "fp_div_const r x c = (if fp_negative x = (c < 0) then PInf else NInf)"

text \<open>Conversion of a value to another format.\<close>

fun fp_cast :: "(rat \<Rightarrow> fp) \<Rightarrow> fp \<Rightarrow> fp" where
  "fp_cast r (Fin a) = r a"
| "fp_cast r x = x"

abbreviation f32_add :: "fp \<Rightarrow> fp \<Rightarrow> fp" where "f32_add \<equiv> fp_add rnd32"
abbreviation f32_sub :: "fp \<Rightarrow> fp \<Rightarrow> fp" where "f32_sub \<equiv> fp_sub rnd32"
abbreviation f32_mul :: "fp \<Rightarrow> fp \<Rightarrow> fp" where "f32_mul \<equiv> fp_mul rnd32"
abbreviation f64_add :: "fp \<Rightarrow> fp \<Rightarrow> fp" where "f64_add \<equiv> fp_add rnd64"
abbreviation f64_sub :: "fp \<Rightarrow> fp \<Rightarrow> fp" where "f64_sub \<equiv> fp_sub rnd64"
abbreviation f64_mul :: "fp \<Rightarrow> fp \<Rightarrow> fp" where "f64_mul \<equiv> fp_mul rnd64"

text \<open>Integer to \<^verbatim>\<open>float\<close>, and a decimal \<^verbatim>\<open>double\<close> literal.\<close>

definition f32_of_int :: "int \<Rightarrow> fp" where
  "f32_of_int i = rnd32 (of_int i)"

definition f64_lit :: "rat \<Rightarrow> fp" where
  "f64_lit q = rnd64 q"

text \<open>
  Floating point to \<^verbatim>\<open>int32_t\<close>: the fraction is discarded (truncation toward zero);
  the behaviour is undefined when the integral part does not fit, or for an infinity or
  a NaN.
\<close>

fun fp_to_i32 :: "fp \<Rightarrow> i32 option" where
  "fp_to_i32 (Fin a) = i32_chk (if 0 \<le> a then \<lfloor>a\<rfloor> else \<lceil>a\<rceil>)"
| "fp_to_i32 x = None"

section \<open>The device handle (ms5611.h)\<close>

definition MS5611_OK :: i8 where "MS5611_OK = 0"
definition MS5611_ERROR :: i8 where "MS5611_ERROR = 1"

definition MS5611_CMD_RESET :: u8 where "MS5611_CMD_RESET = 0x1E"
definition MS5611_CMD_READ_PROM :: u8 where "MS5611_CMD_READ_PROM = 0xA0"
definition MS5611_CMD_CONV_D1 :: u8 where "MS5611_CMD_CONV_D1 = 0x40"
definition MS5611_CMD_CONV_D2 :: u8 where "MS5611_CMD_CONV_D2 = 0x50"
definition MS5611_CMD_ADC_READ :: u8 where "MS5611_CMD_ADC_READ = 0x00"

datatype MS5611_Intf_e = MS5611_INTF_SPI | MS5611_INTF_I2C

datatype MS5611_OSRate_t =
    MS5611_ULTRA_LOW_POWER
  | MS5611_LOW_POWER
  | MS5611_STANDARD
  | MS5611_HIGH_RES
  | MS5611_ULTRA_HIGH_RES

text \<open>The value of an enumerator.\<close>

fun osr_ord :: "MS5611_OSRate_t \<Rightarrow> nat" where
  "osr_ord MS5611_ULTRA_LOW_POWER = 0"
| "osr_ord MS5611_LOW_POWER = 1"
| "osr_ord MS5611_STANDARD = 2"
| "osr_ord MS5611_HIGH_RES = 3"
| "osr_ord MS5611_ULTRA_HIGH_RES = 4"

record MS5611_Data =
  temperature :: i32
  pressure :: i32

text \<open>The array \<^verbatim>\<open>float C[7]\<close> is a function of the index; only 0..6 are ever used.\<close>

record MS5611_Config =
  osRate :: MS5611_OSRate_t
  ct :: u8
  C :: "nat \<Rightarrow> fp"

text \<open>
  The three bus primitives are function pointers of the handle.  They act on the world
  outside the driver (the bus, the sensor, the clock), of type \<open>'w\<close>, which the model
  passes along explicitly.  A read returns its status and the contents of the receive
  buffer after the call, byte by byte; a write takes the payload and its length.
  The members \<^verbatim>\<open>read\<close>, \<^verbatim>\<open>write\<close> and \<^verbatim>\<open>delay\<close> are named \<open>readf\<close>, \<open>writef\<close> and
  \<open>delayf\<close>.
\<close>

type_synonym ('i, 'w) MS5611_Read_t = "'i \<Rightarrow> u8 \<Rightarrow> u8 \<Rightarrow> 'w \<Rightarrow> (i8 \<times> (nat \<Rightarrow> u8)) \<times> 'w"
type_synonym ('i, 'w) MS5611_Write_t = "'i \<Rightarrow> u8 \<Rightarrow> u8 list \<Rightarrow> u8 \<Rightarrow> 'w \<Rightarrow> i8 \<times> 'w"
type_synonym 'w MS5611_Delay_t = "u32 \<Rightarrow> 'w \<Rightarrow> 'w"

record ('i, 'w) MS5611_Device =
  intf :: 'i
  intf_type :: MS5611_Intf_e
  readf :: "('i, 'w) MS5611_Read_t"
  writef :: "('i, 'w) MS5611_Write_t"
  delayf :: "'w MS5611_Delay_t"
  config :: MS5611_Config

section \<open>The driver (ms5611.c)\<close>

definition MS5611_DEFAULT_OSR :: MS5611_OSRate_t where
  "MS5611_DEFAULT_OSR = MS5611_ULTRA_HIGH_RES"

text \<open>Members without an initialiser are zero.\<close>

definition MS5611_NewDevice ::
  "'i \<Rightarrow> MS5611_Intf_e \<Rightarrow> ('i, 'w) MS5611_Read_t \<Rightarrow> ('i, 'w) MS5611_Write_t \<Rightarrow> 'w MS5611_Delay_t
    \<Rightarrow> ('i, 'w) MS5611_Device" where
  "MS5611_NewDevice intf' intf_type' readf' writef' delayf' =
     \<lparr>intf = intf', intf_type = intf_type', readf = readf', writef = writef', delayf = delayf',
      config = \<lparr>osRate = MS5611_ULTRA_LOW_POWER, ct = 0, C = (\<lambda>k. Fin 0)\<rparr>\<rparr>"

definition MS5611_Reset :: "('i, 'w) MS5611_Device \<Rightarrow> 'w \<Rightarrow> 'w" where
  "MS5611_Reset dev w = snd (writef dev (intf dev) MS5611_CMD_RESET [] 0 w)"

definition MS5611_Test :: "('i, 'w) MS5611_Device \<Rightarrow> 'w \<Rightarrow> i8 \<times> 'w" where
  "MS5611_Test dev w =
     (let ((rslt, temp), w') = readf dev (intf dev) MS5611_CMD_READ_PROM 1 w in (rslt, w'))"

definition MS5611_InitConstants :: "('i, 'w) MS5611_Device \<Rightarrow> i8 \<Rightarrow> ('i, 'w) MS5611_Device" where
  "MS5611_InitConstants dev mathMode =
     (let c0 = (C (config dev))
            (0 := f32_of_int 1,
             1 := f32_of_int 32768,
             2 := f32_of_int 65536,
             3 := fp_cast rnd32 (f64_lit (390625 / 10 ^ 8)),
             4 := fp_cast rnd32 (f64_lit (78125 / 10 ^ 7)),
             5 := f32_of_int 256,
             6 := fp_cast rnd32 (f64_lit (11920928955 / 10 ^ 17)));
          c1 = (if mathMode \<noteq> 0
                then c0 (1 := f32_of_int 65536,
                         2 := f32_of_int 131072,
                         3 := fp_cast rnd32 (f64_lit (78125 / 10 ^ 7)),
                         4 := fp_cast rnd32 (f64_lit (15625 / 10 ^ 6)))
                else c0)
      in dev\<lparr>config := (config dev)\<lparr>C := c1\<rparr>\<rparr>)"

definition MS5611_ReadPROM :: "('i, 'w) MS5611_Device \<Rightarrow> u8 \<Rightarrow> 'w \<Rightarrow> u16 \<times> 'w" where
  "MS5611_ReadPROM dev reg w =
     (let mem = MS5611_CMD_READ_PROM + reg * 2;
          ((rslt, temp), w') = readf dev (intf dev) mem 2 w
      in (push_bit 8 (ucast (temp 0)) OR ucast (temp 1), w'))"

function PROM_loop ::
  "('i, 'w) MS5611_Device \<Rightarrow> u8 \<Rightarrow> i8 \<Rightarrow> 'w \<Rightarrow> (i8 \<times> ('i, 'w) MS5611_Device) \<times> 'w" where
  "PROM_loop dev reg rslt w =
     (if reg < 7 then
        let (tmp, w') = MS5611_ReadPROM dev reg w;
            c = C (config dev);
            dev' = dev\<lparr>config := (config dev)
                     \<lparr>C := c (unat reg := f32_mul (c (unat reg)) (f32_of_int (uint tmp)))\<rparr>\<rparr>;
            rslt' = (if 0 < reg \<and> tmp = 0 then MS5611_ERROR else rslt)
        in PROM_loop dev' (reg + 1) rslt' w'
      else ((rslt, dev), w))"
  by pat_completeness auto
termination
proof (relation "measure (\<lambda>(dev, reg, rslt, w). 7 - unat reg)")
  show "wf (measure (\<lambda>(dev :: ('i, 'w) MS5611_Device, reg :: u8, rslt :: i8, w :: 'w). 7 - unat reg))"
    by simp
next
  fix dev :: "('i, 'w) MS5611_Device" and reg :: u8 and rslt :: i8 and w :: 'w
    and x xa y xb xc xd
  assume "reg < 7"
  then have "unat reg < 7"
    by (simp add: word_less_nat_alt)
  then have "unat (reg + 1) = unat reg + 1"
    by (simp add: unat_word_ariths)
  with \<open>unat reg < 7\<close>
  show "((xc, reg + 1, xd, y), dev, reg, rslt, w)
          \<in> measure (\<lambda>(dev, reg, rslt, w). 7 - unat reg)"
    by simp
qed

declare PROM_loop.simps [simp del]

definition MS5611_PROM :: "('i, 'w) MS5611_Device \<Rightarrow> 'w \<Rightarrow> (i8 \<times> ('i, 'w) MS5611_Device) \<times> 'w" where
  "MS5611_PROM dev w = PROM_loop dev 0 MS5611_OK w"

fun osrToConversitonTime :: "MS5611_OSRate_t \<Rightarrow> u8" where
  "osrToConversitonTime MS5611_ULTRA_LOW_POWER = 1"
| "osrToConversitonTime MS5611_LOW_POWER = 2"
| "osrToConversitonTime MS5611_STANDARD = 3"
| "osrToConversitonTime MS5611_HIGH_RES = 5"
| "osrToConversitonTime MS5611_ULTRA_HIGH_RES = 10"

definition MS5611_SetOSRate :: "('i, 'w) MS5611_Device \<Rightarrow> MS5611_OSRate_t \<Rightarrow> ('i, 'w) MS5611_Device" where
  "MS5611_SetOSRate dev osr =
     (let dev1 = dev\<lparr>config := (config dev)\<lparr>ct := osrToConversitonTime osr\<rparr>\<rparr>
      in dev1\<lparr>config := (config dev1)\<lparr>osRate := osr\<rparr>\<rparr>)"

definition MS5611_GetOSRate :: "('i, 'w) MS5611_Device \<Rightarrow> MS5611_OSRate_t" where
  "MS5611_GetOSRate dev = osRate (config dev)"

definition MS5611_Init :: "('i, 'w) MS5611_Device \<Rightarrow> 'w \<Rightarrow> (i8 \<times> ('i, 'w) MS5611_Device) \<times> 'w" where
  "MS5611_Init dev w =
     (let w1 = MS5611_Reset dev w;
          dev1 = MS5611_SetOSRate dev MS5611_DEFAULT_OSR;
          dev2 = MS5611_InitConstants dev1 0;
          w2 = delayf dev2 20 w1
      in MS5611_PROM dev2 w2)"

definition MS5611_Convert :: "('i, 'w) MS5611_Device \<Rightarrow> u8 \<Rightarrow> 'w \<Rightarrow> 'w" where
  "MS5611_Convert dev addr w =
     (let cmd_convert = addr + of_nat (osr_ord (osRate (config dev)) * 2)
      in snd (writef dev (intf dev) cmd_convert [] 0 w))"

definition MS5611_AdcRead :: "('i, 'w) MS5611_Device \<Rightarrow> 'w \<Rightarrow> (i8 \<times> u32) \<times> 'w" where
  "MS5611_AdcRead dev w =
     (let ((rslt, temp), w') = readf dev (intf dev) MS5611_CMD_ADC_READ 3 w;
          buffer = push_bit 16 (ucast (temp 0)) OR push_bit 8 (ucast (temp 1)) OR ucast (temp 2)
      in ((rslt, buffer), w'))"

text \<open>
  The usual arithmetic conversions decide the format of each operation: an integer
  operand of a \<^verbatim>\<open>float\<close> operation is converted to \<^verbatim>\<open>float\<close>, a \<^verbatim>\<open>float\<close> operand of
  an operation with a \<^verbatim>\<open>double\<close> literal is widened (exactly) and the operation is done
  in \<^verbatim>\<open>double\<close>, and an assignment to a \<^verbatim>\<open>float\<close> or \<^verbatim>\<open>int32_t\<close> variable converts
  the result.  The two squares are products of \<^verbatim>\<open>int32_t\<close> values.
\<close>

definition MS5611_RawDataProcess ::
  "('i, 'w) MS5611_Device \<Rightarrow> u32 \<Rightarrow> u32 \<Rightarrow> i8 \<Rightarrow> MS5611_Data option" where
  "MS5611_RawDataProcess dev D1 D2 compensation = do {
     let c = C (config dev);
     let dT = f32_sub (f32_of_int (uint D2)) (c 5);
     temperature0 \<leftarrow> fp_to_i32 (f32_add (f32_of_int 2000) (f32_mul dT (c 6)));
     let offset = f32_add (c 2) (f32_mul dT (c 4));
     let sens = f32_add (c 1) (f32_mul dT (c 3));
     (temperature1, offset1, sens1) \<leftarrow>
       (if compensation \<noteq> 0 then
          (if sint temperature0 < 2000 then do {
             let T2 = fp_cast rnd32 (f64_mul (f32_mul dT dT) (f64_lit (46566128731 / 10 ^ 20)));
             d \<leftarrow> i32_sub temperature0 2000;
             dd \<leftarrow> i32_mul d d;
             let t = f32_of_int (sint dd);
             let offset2 = fp_cast rnd32 (f64_mul (f64_lit (25 / 10)) t);
             let sens2 = fp_cast rnd32 (f64_mul (f64_lit (125 / 100)) t);
             (offset2', sens2') \<leftarrow>
               (if sint temperature0 < - 1500 then do {
                  e \<leftarrow> i32_add temperature0 1500;
                  ee \<leftarrow> i32_mul e e;
                  let t' = f32_of_int (sint ee);
                  Some (f32_add offset2 (f32_mul (f32_of_int 7) t'),
                        fp_cast rnd32 (f64_add sens2 (f64_mul (f64_lit (55 / 10)) t')))
                } else Some (offset2, sens2));
             temperature' \<leftarrow> fp_to_i32 (f32_sub (f32_of_int (sint temperature0)) T2);
             Some (temperature', f32_sub offset offset2', f32_sub sens sens2')
           } else Some (temperature0, offset, sens))
        else Some (temperature0, offset, sens));
     pressure' \<leftarrow> fp_to_i32
       (f64_mul
          (f64_sub (f64_mul (f32_mul (f32_of_int (uint D1)) sens1) (f64_lit (476837158205 / 10 ^ 18)))
             offset1)
          (f64_lit (3051757813 / 10 ^ 14)));
     Some \<lparr>temperature = temperature1, pressure = pressure'\<rparr>
   }"

text \<open>
  The two outputs \<^verbatim>\<open>*pTemp\<close> and \<^verbatim>\<open>*pPress\<close> are returned after the status.
\<close>

definition MS5611_GetData ::
  "('i, 'w) MS5611_Device \<Rightarrow> 'w \<Rightarrow> ((i8 \<times> fp \<times> fp) \<times> 'w) option" where
  "MS5611_GetData dev w =
     (let rslt0 = MS5611_OK;
          w1 = MS5611_Convert dev MS5611_CMD_CONV_D1 w;
          w2 = delayf dev (ucast (ct (config dev))) w1;
          ((r1, D1), w3) = MS5611_AdcRead dev w2;
          rslt1 = rslt0 OR r1;
          w4 = MS5611_Convert dev MS5611_CMD_CONV_D2 w3;
          w5 = delayf dev (ucast (ct (config dev))) w4;
          ((r2, D2), w6) = MS5611_AdcRead dev w5;
          rslt2 = rslt1 OR r2
      in do {
        data \<leftarrow> MS5611_RawDataProcess dev D1 D2 1;
        let pTemp = fp_div_const rnd32 (f32_of_int (sint (temperature data))) 100;
        let pPress = fp_div_const rnd32 (f32_of_int (sint (pressure data))) 100;
        Some ((rslt2, pTemp, pPress), w6)
      })"

section \<open>Notions of the specification\<close>

subsection \<open>Calibration words\<close>

text \<open>
  The calibration loader reads one word after the other, and a read may change the world.
  \<open>prom_world dev w k\<close> is the world before the read for slot \<open>k\<close>, and
  \<open>prom_word dev w k\<close> the word that read returns.
\<close>

primrec prom_world :: "('i, 'w) MS5611_Device \<Rightarrow> 'w \<Rightarrow> nat \<Rightarrow> 'w" where
  "prom_world dev w 0 = w"
| "prom_world dev w (Suc k) = snd (MS5611_ReadPROM dev (of_nat k) (prom_world dev w k))"

definition prom_word :: "('i, 'w) MS5611_Device \<Rightarrow> 'w \<Rightarrow> nat \<Rightarrow> u16" where
  "prom_word dev w k = fst (MS5611_ReadPROM dev (of_nat k) (prom_world dev w k))"

text \<open>
  The coefficients once the slots below \<open>n\<close> are loaded: each is the stored value times
  the word of its slot, a \<^verbatim>\<open>float\<close> product.
\<close>

definition loaded_upto :: "nat \<Rightarrow> ('i, 'w) MS5611_Device \<Rightarrow> 'w \<Rightarrow> nat \<Rightarrow> fp" where
  "loaded_upto n dev w k =
     (if k < n then f32_mul (C (config dev) k) (f32_of_int (uint (prom_word dev w k)))
      else C (config dev) k)"

text \<open>Some word of a slot from 1 on and below \<open>n\<close> is zero.\<close>

definition failed_upto :: "nat \<Rightarrow> ('i, 'w) MS5611_Device \<Rightarrow> 'w \<Rightarrow> bool" where
  "failed_upto n dev w = (\<exists>k\<in>{1..<n}. prom_word dev w k = 0)"

definition PROM_state ::
  "nat \<Rightarrow> ('i, 'w) MS5611_Device \<Rightarrow> 'w \<Rightarrow> (i8 \<times> ('i, 'w) MS5611_Device) \<times> 'w" where
  "PROM_state n dev w =
     ((if failed_upto n dev w then MS5611_ERROR else MS5611_OK,
       dev\<lparr>config := (config dev)\<lparr>C := loaded_upto n dev w\<rparr>\<rparr>),
      prom_world dev w n)"

subsection \<open>Initialisation\<close>

text \<open>
  The world once the reset command \<^verbatim>\<open>0x1E\<close> is written and 20 ms have passed.
\<close>

definition after_reset :: "('i, 'w) MS5611_Device \<Rightarrow> 'w \<Rightarrow> 'w" where
  "after_reset dev w = delayf dev 20 (snd (writef dev (intf dev) 0x1E [] 0 w))"

text \<open>
  Initialisation in the order of the specification: (a) the reset command and the settle
  delay, (b) the rate ultra high resolution, with the conversion time 10 of that rate,
  (c) the base constants of the standard mode, (d) the calibration load.
\<close>

definition Init_in_order ::
  "('i, 'w) MS5611_Device \<Rightarrow> 'w \<Rightarrow> (i8 \<times> ('i, 'w) MS5611_Device) \<times> 'w" where
  "Init_in_order dev w =
     (let w1 = snd (writef dev (intf dev) 0x1E [] 0 w);
          w2 = delayf dev 20 w1;
          dev1 = dev\<lparr>config := (config dev)\<lparr>osRate := MS5611_ULTRA_HIGH_RES, ct := 10\<rparr>\<rparr>;
          dev2 = dev1\<lparr>config := (config dev1)\<lparr>C := (C (config dev1))
                   (0 := Fin 1, 1 := Fin 32768, 2 := Fin 65536, 3 := Fin (1 / 256),
                    4 := Fin (1 / 128), 5 := Fin 256, 6 := Fin (1 / 8388608))\<rparr>\<rparr>
      in MS5611_PROM dev2 w2)"

subsection \<open>The measurement cycle\<close>

text \<open>The two ADC reads of a cycle: status and sample of each, and the world afterwards.\<close>

definition cycle_reads :: "('i, 'w) MS5611_Device \<Rightarrow> 'w \<Rightarrow> (i8 \<times> u32) \<times> (i8 \<times> u32) \<times> 'w" where
  "cycle_reads dev w =
     (let w2 = delayf dev (ucast (ct (config dev))) (MS5611_Convert dev MS5611_CMD_CONV_D1 w);
          (a1, w3) = MS5611_AdcRead dev w2;
          w5 = delayf dev (ucast (ct (config dev))) (MS5611_Convert dev MS5611_CMD_CONV_D2 w3);
          (a2, w6) = MS5611_AdcRead dev w5
      in (a1, a2, w6))"

text \<open>An output of the cycle: hundredths as a \<^verbatim>\<open>float\<close> divided by \<^verbatim>\<open>100.0f\<close>.\<close>

definition centi_out :: "i32 \<Rightarrow> fp" where
  "centi_out v = fp_div_const rnd32 (f32_of_int (sint v)) 100"

subsection \<open>The compensation formulas\<close>

text \<open>Steps 1 to 4 of the compensation engine, in \<^verbatim>\<open>float\<close> arithmetic.\<close>

definition first_order_dT :: "('i, 'w) MS5611_Device \<Rightarrow> u32 \<Rightarrow> fp" where
  "first_order_dT dev D2 = f32_sub (f32_of_int (uint D2)) (C (config dev) 5)"

definition first_order_TEMP :: "('i, 'w) MS5611_Device \<Rightarrow> u32 \<Rightarrow> i32 option" where
  "first_order_TEMP dev D2 =
     fp_to_i32 (f32_add (f32_of_int 2000) (f32_mul (first_order_dT dev D2) (C (config dev) 6)))"

definition first_order_OFFSET :: "('i, 'w) MS5611_Device \<Rightarrow> u32 \<Rightarrow> fp" where
  "first_order_OFFSET dev D2 =
     f32_add (C (config dev) 2) (f32_mul (first_order_dT dev D2) (C (config dev) 4))"

definition first_order_SENS :: "('i, 'w) MS5611_Device \<Rightarrow> u32 \<Rightarrow> fp" where
  "first_order_SENS dev D2 =
     f32_add (C (config dev) 1) (f32_mul (first_order_dT dev D2) (C (config dev) 3))"

text \<open>
  Step 6 with two scale factors \<open>k21\<close> and \<open>k15\<close>: the product of \<open>D1\<close> and \<open>SENS\<close> is a
  \<^verbatim>\<open>float\<close> product, the rest is \<^verbatim>\<open>double\<close> arithmetic, and the result is truncated.
\<close>

definition pressure_with :: "fp \<Rightarrow> fp \<Rightarrow> u32 \<Rightarrow> fp \<Rightarrow> fp \<Rightarrow> i32 option" where
  "pressure_with k21 k15 D1 sens offset =
     fp_to_i32 (f64_mul (f64_sub (f64_mul (f32_mul (f32_of_int (uint D1)) sens) k21) offset) k15)"

text \<open>The scale factors as the claim names them, and as the driver writes them.\<close>

definition pressure_pow2 :: "u32 \<Rightarrow> fp \<Rightarrow> fp \<Rightarrow> i32 option" where
  "pressure_pow2 = pressure_with (Fin (1 / 2 ^ 21)) (Fin (1 / 2 ^ 15))"

definition pressure_dec :: "u32 \<Rightarrow> fp \<Rightarrow> fp \<Rightarrow> i32 option" where
  "pressure_dec =
     pressure_with (f64_lit (476837158205 / 10 ^ 18)) (f64_lit (3051757813 / 10 ^ 14))"

definition first_order_with ::
  "(u32 \<Rightarrow> fp \<Rightarrow> fp \<Rightarrow> i32 option) \<Rightarrow> ('i, 'w) MS5611_Device \<Rightarrow> u32 \<Rightarrow> u32 \<Rightarrow> MS5611_Data option" where
  "first_order_with press dev D1 D2 = do {
     T \<leftarrow> first_order_TEMP dev D2;
     P \<leftarrow> press D1 (first_order_SENS dev D2) (first_order_OFFSET dev D2);
     Some \<lparr>temperature = T, pressure = P\<rparr>
   }"

text \<open>
  Step 5, the second-order terms as functions of the first-order temperature, the squares
  being squares of integers.
\<close>

definition second_order_T2 :: "fp \<Rightarrow> fp" where
  "second_order_T2 dT = fp_cast rnd32 (f64_mul (f32_mul dT dT) (f64_lit (46566128731 / 10 ^ 20)))"

definition second_order_OFFSET2 :: "int \<Rightarrow> fp" where
  "second_order_OFFSET2 T =
     (let base = f32_of_int ((T - 2000) * (T - 2000));
          moderate = fp_cast rnd32 (f64_mul (f64_lit (25 / 10)) base)
      in if T < - 1500
         then f32_add moderate (f32_mul (f32_of_int 7) (f32_of_int ((T + 1500) * (T + 1500))))
         else moderate)"

definition second_order_SENS2 :: "int \<Rightarrow> fp" where
  "second_order_SENS2 T =
     (let base = f32_of_int ((T - 2000) * (T - 2000));
          moderate = fp_cast rnd32 (f64_mul (f64_lit (125 / 100)) base)
      in if T < - 1500
         then fp_cast rnd32
                (f64_add moderate (f64_mul (f64_lit (55 / 10)) (f32_of_int ((T + 1500) * (T + 1500)))))
         else moderate)"

definition compensated :: "('i, 'w) MS5611_Device \<Rightarrow> u32 \<Rightarrow> u32 \<Rightarrow> MS5611_Data option" where
  "compensated dev D1 D2 = do {
     T \<leftarrow> first_order_TEMP dev D2;
     if sint T < 2000 then do {
       T' \<leftarrow> fp_to_i32 (f32_sub (f32_of_int (sint T)) (second_order_T2 (first_order_dT dev D2)));
       P \<leftarrow> pressure_dec D1
              (f32_sub (first_order_SENS dev D2) (second_order_SENS2 (sint T)))
              (f32_sub (first_order_OFFSET dev D2) (second_order_OFFSET2 (sint T)));
       Some \<lparr>temperature = T', pressure = P\<rparr>
     } else do {
       P \<leftarrow> pressure_dec D1 (first_order_SENS dev D2) (first_order_OFFSET dev D2);
       Some \<lparr>temperature = T, pressure = P\<rparr>
     }
   }"

section \<open>A simulated transport\<close>

text \<open>
  A bus for concrete runs: the PROM is a table from register address to word, the
  \<open>n\<close>-th ADC read returns the status and the sample \<open>adc n\<close>, and the world is the number
  of ADC reads so far.  Writes and delays succeed and change nothing.
\<close>

definition mock_read :: "(u8 \<Rightarrow> u16) \<Rightarrow> (nat \<Rightarrow> i8 \<times> u32) \<Rightarrow> (unit, nat) MS5611_Read_t" where
  "mock_read prom adc i reg len n =
     (if reg = MS5611_CMD_ADC_READ
      then ((fst (adc n), \<lambda>k. ucast (drop_bit (8 * (2 - k)) (snd (adc n)))), Suc n)
      else ((0, \<lambda>k. ucast (drop_bit (8 * (1 - k)) (prom reg))), n))"

definition mock_dev :: "(u8 \<Rightarrow> u16) \<Rightarrow> (nat \<Rightarrow> i8 \<times> u32) \<Rightarrow> (unit, nat) MS5611_Device" where
  "mock_dev prom adc =
     MS5611_NewDevice () MS5611_INTF_I2C (mock_read prom adc) (\<lambda>i reg tx len n. (0, n)) (\<lambda>ms n. n)"

text \<open>A PROM holding the seven words \<open>w0 .. w6\<close> at \<open>0xA0 .. 0xAC\<close>.\<close>

definition prom_of :: "u16 \<Rightarrow> u16 \<Rightarrow> u16 \<Rightarrow> u16 \<Rightarrow> u16 \<Rightarrow> u16 \<Rightarrow> u16 \<Rightarrow> u8 \<Rightarrow> u16" where
  "prom_of w0 w1 w2 w3 w4 w5 w6 =
     (\<lambda>reg. 0) (0xA0 := w0, 0xA2 := w1, 0xA4 := w2, 0xA6 := w3, 0xA8 := w4, 0xAA := w5, 0xAC := w6)"

text \<open>The calibration words of the data sheet's example, and three variations.\<close>

definition prom_datasheet :: "u8 \<Rightarrow> u16" where
  "prom_datasheet = prom_of 7 40127 36924 23317 23282 33464 28312"

definition prom_zero3 :: "u8 \<Rightarrow> u16" where
  "prom_zero3 = prom_of 7 40127 36924 0 23282 33464 28312"

definition prom_low :: "u8 \<Rightarrow> u16" where
  "prom_low = prom_of 2 40000 20001 23317 23282 33464 28312"

definition prom_cold :: "u8 \<Rightarrow> u16" where
  "prom_cold = prom_of 2 40000 20001 23317 23282 40000 40000"

text \<open>ADC feeds: the data sheet's samples, the second read failing; and no samples.\<close>

definition adc_datasheet :: "nat \<Rightarrow> i8 \<times> u32" where
  "adc_datasheet n = (if n = 0 then (0, 9085466) else (1, 8569150))"

definition adc_none :: "nat \<Rightarrow> i8 \<times> u32" where
  "adc_none n = (0, 0)"

text \<open>Handles initialised over the simulated bus.\<close>

definition dev_datasheet :: "(unit, nat) MS5611_Device" where
  "dev_datasheet = snd (fst (MS5611_Init (mock_dev prom_datasheet adc_datasheet) 0))"

definition dev_low :: "(unit, nat) MS5611_Device" where
  "dev_low = snd (fst (MS5611_Init (mock_dev prom_low adc_none) 0))"

definition dev_cold :: "(unit, nat) MS5611_Device" where
  "dev_cold = snd (fst (MS5611_Init (mock_dev prom_cold adc_none) 0))"

text \<open>
  A bus that records what the driver does on it: the world is the list of the writes,
  delays and reads so far.  Reads return the bytes of the PROM word at the register and
  succeed; every write reports the failure status 1.
\<close>

datatype bus_event = Bus_write u8 | Bus_delay u32 | Bus_read u8 u8

definition log_dev :: "(u8 \<Rightarrow> u16) \<Rightarrow> (unit, bus_event list) MS5611_Device" where
  "log_dev prom =
     MS5611_NewDevice () MS5611_INTF_SPI
       (\<lambda>i reg len tr. ((0, \<lambda>k. ucast (drop_bit (8 * (1 - k)) (prom reg))), tr @ [Bus_read reg len]))
       (\<lambda>i reg tx len tr. (1, tr @ [Bus_write reg]))
       (\<lambda>ms tr. tr @ [Bus_delay ms])"

text \<open>The loader run twice in a row.\<close>

definition PROM_twice ::
  "('i, 'w) MS5611_Device \<Rightarrow> 'w \<Rightarrow> (i8 \<times> ('i, 'w) MS5611_Device) \<times> 'w" where
  "PROM_twice dev w = (case MS5611_PROM dev w of ((rslt, dev'), w') \<Rightarrow> MS5611_PROM dev' w')"

section \<open>Evaluation of the arithmetic\<close>

lemma blen_0 [simp]: "blen 0 = 0"
  by (simp add: blen.simps)

lemma blen_1 [simp]: "blen 1 = 1"
  by (simp add: blen.simps)

lemma blen_Bit0 [simp]: "blen (numeral (Num.Bit0 n)) = 1 + blen (numeral n)"
  by (subst blen.simps) simp

lemma blen_Bit1 [simp]: "blen (numeral (Num.Bit1 n)) = 1 + blen (numeral n)"
  by (subst blen.simps) simp

lemma floor_rat_numeral [simp]: "\<lfloor>numeral a / numeral b :: rat\<rfloor> = numeral a div numeral b"
  by (metis floor_divide_of_int_eq of_int_numeral)

lemma floor_rat_minus_numeral [simp]: "\<lfloor>- (numeral a / numeral b) :: rat\<rfloor> = - numeral a div numeral b"
  by (metis divide_minus_left floor_divide_of_int_eq of_int_neg_numeral of_int_numeral)

lemma ceiling_rat_numeral [simp]: "\<lceil>numeral a / numeral b :: rat\<rceil> = - (- numeral a div numeral b)"
  using ceiling_divide_eq_div [of "numeral a" "numeral b", where ?'a = rat] by simp

lemma ceiling_rat_minus_numeral [simp]: "\<lceil>- (numeral a / numeral b :: rat)\<rceil> = - (numeral a div numeral b)"
  using ceiling_divide_eq_div [of "- numeral a" "numeral b", where ?'a = rat] by simp

lemmas fp_eval = rnd32_def rnd64_def fround_def overflow_to_inf_def round_to_def ulp_exp_def
  ilog2_def pow2_def round_even_def round_pick_def
  f32_of_int_def f64_lit_def fp_sub_def i32_chk_def i32_add_def i32_sub_def i32_mul_def

section \<open>The rounding model\<close>

text \<open>
  The bit length and the binary exponent are what their names say, rounding to an integer
  goes to a nearest one and to the even one in a tie, and rounding to single precision
  leaves a number with at most 24 significant bits as it is.
\<close>

lemma blen_nonneg: "0 \<le> blen n"
  by (induction n rule: blen.induct) (subst blen.simps, simp)

lemma blen_pos: "1 \<le> n \<Longrightarrow> 1 \<le> blen n"
  using blen_nonneg [of "n div 2"] by (subst blen.simps) simp

lemma blen_le: "n < 2 ^ k \<Longrightarrow> blen n \<le> int k"
proof (induction k arbitrary: n)
  case 0
  then show ?case by (subst blen.simps) simp
next
  case (Suc k)
  then have "n div 2 < 2 ^ k"
    by simp
  with Suc.IH have "blen (n div 2) \<le> int k" .
  then show ?case
    by (subst blen.simps) simp
qed

lemma blen_bounds: "1 \<le> n \<Longrightarrow> 2 ^ nat (blen n - 1) \<le> n \<and> n < 2 ^ nat (blen n)"
proof (induction n rule: blen.induct)
  case (1 n)
  show ?case
  proof (cases "n = 1")
    case True
    then show ?thesis
      by simp
  next
    case False
    with "1.prems" have m: "1 \<le> n div 2" and n: "\<not> n \<le> 0"
      by simp_all
    from "1.IH" [OF n m] have lo: "2 ^ nat (blen (n div 2) - 1) \<le> n div 2"
      and hi: "n div 2 < 2 ^ nat (blen (n div 2))"
      by simp_all
    have b: "blen n = 1 + blen (n div 2)"
      using n by (subst blen.simps) simp
    have bp: "1 \<le> blen (n div 2)"
      using m by (rule blen_pos)
    have e1: "nat (blen n - 1) = Suc (nat (blen (n div 2) - 1))"
      using bp b by arith
    have e2: "nat (blen n) = Suc (nat (blen (n div 2)))"
      using bp b by arith
    have "2 * 2 ^ nat (blen (n div 2) - 1) \<le> 2 * (n div 2)"
      using lo by simp
    also have "\<dots> \<le> n"
      by simp
    finally have "2 ^ nat (blen n - 1) \<le> n"
      by (simp add: e1)
    moreover have "n < 2 * (n div 2) + 2"
      by presburger
    then have "n < 2 ^ nat (blen n)"
      using hi by (simp add: e2)
    ultimately show ?thesis
      by simp
  qed
qed

lemma pow2_powi: "pow2 e = 2 powi e"
  by (simp add: pow2_def power_int_def power_one_over inverse_eq_divide)

lemma powi_nonneg: "0 \<le> e \<Longrightarrow> (2::rat) powi e = of_int (2 ^ nat e)"
  by (simp add: power_int_def)

lemma powi_neg: "e \<le> 0 \<Longrightarrow> (2::rat) powi e = 1 / of_int (2 ^ nat (- e))"
  by (cases "e = 0") (simp_all add: power_int_def power_one_over inverse_eq_divide)

lemma ilog2_bounds:
  assumes "0 < x"
  shows "2 powi (ilog2 x) \<le> x" and "x < 2 powi (ilog2 x + 1)"
proof -
  have "2 powi (ilog2 x) \<le> x \<and> x < 2 powi (ilog2 x + 1)"
  proof (cases "1 \<le> x")
    case True
    define n where "n = \<lfloor>x\<rfloor>"
    have n1: "1 \<le> n"
      using True by (simp add: n_def le_floor_iff)
    have nx: "of_int n \<le> x" and xn: "x < of_int (n + 1)"
      using floor_correct [of x] by (simp_all add: n_def)
    have b1: "1 \<le> blen n"
      using n1 by (rule blen_pos)
    have i: "ilog2 x = blen n - 1"
      using True by (simp add: ilog2_def n_def)
    from blen_bounds [OF n1] have lo: "2 ^ nat (blen n - 1) \<le> n" and hi: "n + 1 \<le> 2 ^ nat (blen n)"
      by simp_all
    have "(2::rat) powi (blen n - 1) = of_int (2 ^ nat (blen n - 1))"
      using b1 by (intro powi_nonneg) simp
    also have "\<dots> \<le> of_int n"
      using lo by (simp only: of_int_le_iff)
    finally have l: "2 powi (blen n - 1) \<le> x"
      using nx by simp
    have "rat_of_int (n + 1) \<le> of_int (2 ^ nat (blen n))"
      using hi by (simp only: of_int_le_iff)
    also have "\<dots> = 2 powi (blen n)"
      using b1 by (intro powi_nonneg [symmetric]) simp
    finally have "x < 2 powi (blen n)"
      using xn by simp
    with l show ?thesis
      by (simp add: i)
  next
    case False
    define c where "c = \<lceil>1 / x\<rceil> - 1"
    have y1: "1 < 1 / x"
      using False assms by simp
    then have c1: "1 \<le> c"
      by (simp add: c_def less_ceiling_iff)
    have cy: "of_int c < 1 / x" and yc: "1 / x \<le> of_int (c + 1)"
      by (simp_all add: c_def ceiling_correct del: of_int_diff)
         (metis ceiling_correct diff_less_eq of_int_1 of_int_diff)
    have b1: "1 \<le> blen c"
      using c1 by (rule blen_pos)
    have i: "ilog2 x = - blen c"
      using False by (simp add: ilog2_def c_def)
    from blen_bounds [OF c1] have lo: "2 ^ nat (blen c - 1) \<le> c" and hi: "c + 1 \<le> 2 ^ nat (blen c)"
      by simp_all
    have "1 / x \<le> rat_of_int (2 ^ nat (blen c))"
      using yc hi by (meson of_int_le_iff order_trans)
    then have "1 / rat_of_int (2 ^ nat (blen c)) \<le> x"
      using assms by (simp add: field_simps)
    moreover have "(2::rat) powi (- blen c) = 1 / of_int (2 ^ nat (blen c))"
      using b1 powi_neg [of "- blen c"] by simp
    ultimately have l: "2 powi (- blen c) \<le> x"
      by simp
    have "rat_of_int (2 ^ nat (blen c - 1)) < 1 / x"
      using cy lo by (meson of_int_le_iff le_less_trans)
    then have "x < 1 / rat_of_int (2 ^ nat (blen c - 1))"
      using assms by (simp add: field_simps)
    moreover have "(2::rat) powi (- blen c + 1) = 1 / of_int (2 ^ nat (blen c - 1))"
      using b1 powi_neg [of "- blen c + 1"] by simp
    ultimately have "x < 2 powi (- blen c + 1)"
      by simp
    with l show ?thesis
      by (simp add: i)
  qed
  then show "2 powi (ilog2 x) \<le> x" and "x < 2 powi (ilog2 x + 1)"
    by simp_all
qed

lemma ilog2_unique:
  assumes "2 powi e \<le> x" and "x < 2 powi (e + 1)"
  shows "ilog2 x = e"
proof (rule ccontr)
  assume ne: "ilog2 x \<noteq> e"
  have x: "0 < x"
    by (rule less_le_trans [OF _ assms(1)]) simp
  note b = ilog2_bounds [OF x]
  show False
  proof (cases "ilog2 x < e")
    case True
    then have "(2::rat) powi (ilog2 x + 1) \<le> 2 powi e"
      by (intro power_int_increasing) simp_all
    with b(2) assms(1) show False
      by simp
  next
    case False
    with ne have "(2::rat) powi (e + 1) \<le> 2 powi (ilog2 x)"
      by (intro power_int_increasing) simp_all
    with b(1) assms(2) show False
      by simp
  qed
qed

lemma round_even_of_int: "round_even (of_int m) = m"
  by (simp add: round_even_def round_pick_def)

lemma round_even_nearest:
  shows "\<bar>q - of_int (round_even q)\<bar> \<le> 1 / 2"
    and "\<bar>q - of_int (round_even q)\<bar> = 1 / 2 \<Longrightarrow> even (round_even q)"
proof -
  define f where "f = \<lfloor>q\<rfloor>"
  define d where "d = q - of_int f"
  have d: "0 \<le> d" "d < 1"
    using floor_correct [of q] by (simp_all add: d_def f_def)
  have q: "q = of_int f + d"
    by (simp add: d_def)
  have r: "round_even q =
      (if d < 1 / 2 then f else if 1 / 2 < d then f + 1 else if even f then f else f + 1)"
    by (simp add: round_even_def round_pick_def f_def d_def)
  have e: "q - of_int (round_even q) =
      (if d < 1 / 2 then d else if 1 / 2 < d then d - 1 else if even f then d else d - 1)"
    unfolding r by (simp add: d_def)
  show "\<bar>q - of_int (round_even q)\<bar> \<le> 1 / 2"
    unfolding e using d by auto
  show "even (round_even q)" if "\<bar>q - of_int (round_even q)\<bar> = 1 / 2"
  proof -
    from that have "\<bar>if d < 1 / 2 then d else if 1 / 2 < d then d - 1 else if even f then d else d - 1\<bar>
        = 1 / 2"
      by (simp only: e)
    then show ?thesis
      unfolding r using d by (auto split: if_splits)
  qed
qed

lemma rnd32_int_exact:
  assumes "0 \<le> n" and "n < 2 ^ 24"
  shows "rnd32 (of_int n) = Fin (of_int n)"
proof (cases "n = 0")
  case True
  then show ?thesis by (simp add: rnd32_def fround_def)
next
  case False
  with assms have n1: "1 \<le> n" by simp
  define j where "j = nat (24 - blen n)"
  have "blen n \<le> 24" using blen_le [of n 24] assms by simp
  moreover have "1 \<le> blen n" using n1 by (rule blen_pos)
  ultimately have j: "int j = 24 - blen n" and j24: "j < 24"
    by (simp_all add: j_def)
  have x: "\<bar>rat_of_int n\<bar> = of_int n" "(1::rat) \<le> of_int n"
    using n1 by simp_all
  have "ulp_exp 24 (- 126) (of_int n) = - int j"
    using \<open>1 \<le> blen n\<close> n1 by (simp add: ulp_exp_def ilog2_def j)
  then have u: "pow2 (ulp_exp 24 (- 126) (of_int n)) = 1 / 2 ^ j"
    by (simp add: pow2_def)
  have "round_to (1 / 2 ^ j) (of_int n) = of_int (round_even (of_int (n * 2 ^ j))) / 2 ^ j"
    by (simp add: round_to_def)
  also have "\<dots> = of_int n"
    by (simp only: round_even_of_int) simp
  finally have r: "round_to (1 / 2 ^ j) (of_int n) = of_int n" .
  have "rat_of_int n < 2 ^ 24"
    using assms(2) by (metis of_int_less_numeral_power_cancel_iff)
  then have small: "\<not> (2::rat) ^ 128 \<le> \<bar>of_int n\<bar>"
    using x by simp
  have "fround 24 (- 126) 127 (of_int n) =
      overflow_to_inf 127 (round_to (pow2 (ulp_exp 24 (- 126) (of_int n))) (of_int n))"
    using False by (simp add: fround_def)
  also have "\<dots> = overflow_to_inf 127 (of_int n)"
    by (simp only: u r)
  also have "\<dots> = Fin (of_int n)"
    using small by (simp add: overflow_to_inf_def pow2_def)
  finally show ?thesis
    by (simp add: rnd32_def)
qed

lemma rnd32_scaled_exact:
  assumes "0 \<le> n" and "n < 2 ^ 24" and "- 126 \<le> a" and "a \<le> 100"
  shows "rnd32 (of_int n * 2 powi a) = Fin (of_int n * 2 powi a)"
proof (cases "n = 0")
  case True
  then show ?thesis by (simp add: rnd32_def fround_def)
next
  case False
  with assms have n1: "1 \<le> n" by simp
  define b where "b = blen n"
  define x :: rat where "x = of_int n * 2 powi a"
  have b24: "b \<le> 24" using blen_le [of n 24] assms by (simp add: b_def)
  have b1: "1 \<le> b" using n1 unfolding b_def by (rule blen_pos)
  have x0: "0 < x" using n1 by (simp add: x_def)
  from blen_bounds [OF n1] have lo: "2 ^ nat (b - 1) \<le> n" and hi: "n < 2 ^ nat b"
    by (simp_all add: b_def)
  have "(2::rat) powi (b - 1) = of_int (2 ^ nat (b - 1))"
    using b1 by (intro powi_nonneg) simp
  also have "\<dots> \<le> of_int n"
    using lo by (simp only: of_int_le_iff)
  finally have "2 powi (b - 1) * 2 powi a \<le> x"
    unfolding x_def by (intro mult_right_mono) simp_all
  then have l: "2 powi (b - 1 + a) \<le> x"
    by (simp add: power_int_add)
  have "rat_of_int n < of_int (2 ^ nat b)"
    using hi by (simp only: of_int_less_iff)
  also have "\<dots> = 2 powi b"
    using b1 by (intro powi_nonneg [symmetric]) simp
  finally have "x < 2 powi b * 2 powi a"
    unfolding x_def by (intro mult_strict_right_mono) simp_all
  then have h: "x < 2 powi (b - 1 + a + 1)"
    by (simp add: power_int_add)
  from l h have i: "ilog2 x = b - 1 + a"
    by (rule ilog2_unique)
  have u: "ulp_exp 24 (- 126) x = b + a - 24"
    using x0 b1 assms(3) by (simp add: ulp_exp_def i)
  have "x / 2 powi (b + a - 24) = of_int n * (2 powi a / 2 powi (b + a - 24))"
    by (simp add: x_def)
  also have "2 powi a / (2::rat) powi (b + a - 24) = 2 powi (24 - b)"
    by (simp add: power_int_diff [symmetric])
  also have "\<dots> = of_int (2 ^ nat (24 - b))"
    using b24 by (intro powi_nonneg) simp
  finally have q: "x / 2 powi (b + a - 24) = of_int (n * 2 ^ nat (24 - b))"
    by simp
  have "round_to (2 powi (b + a - 24)) x = of_int (n * 2 ^ nat (24 - b)) * 2 powi (b + a - 24)"
    by (simp only: round_to_def q round_even_of_int)
  also have "\<dots> = x / 2 powi (b + a - 24) * 2 powi (b + a - 24)"
    by (simp only: q)
  also have "\<dots> = x"
    by simp
  finally have r: "round_to (pow2 (ulp_exp 24 (- 126) x)) x = x"
    by (simp add: pow2_powi u)
  have "(2::rat) powi (b - 1 + a + 1) \<le> 2 powi 128"
    using b24 assms(4) by (intro power_int_increasing) simp_all
  with h have "x < 2 powi 128"
    by simp
  then have small: "\<not> pow2 (127 + 1) \<le> \<bar>x\<bar>"
    using x0 by (simp add: pow2_powi)
  have "fround 24 (- 126) 127 x = overflow_to_inf 127 (round_to (pow2 (ulp_exp 24 (- 126) x)) x)"
    using x0 by (simp add: fround_def)
  also have "\<dots> = overflow_to_inf 127 x"
    by (simp only: r)
  also have "\<dots> = Fin x"
    using small by (simp only: overflow_to_inf_def if_False)
  finally show ?thesis
    by (simp add: rnd32_def x_def)
qed

lemma f32_of_u16_exact: "f32_of_int (uint (x :: u16)) = Fin (of_int (uint x))"
proof -
  have "uint x < 2 ^ 16"
    using uint_bounded [of x] by simp
  then have "uint x < 2 ^ 24"
    by simp
  then show ?thesis
    using rnd32_int_exact [of "uint x"] by (simp add: f32_of_int_def)
qed

lemma f32_mul_one_u16: "f32_mul (Fin 1) (f32_of_int (uint (x :: u16))) = Fin (of_int (uint x))"
  using f32_of_u16_exact [of x] by (simp add: f32_of_int_def)

lemma f32_mul_powi_u16:
  assumes "- 126 \<le> a" and "a \<le> 100"
  shows "f32_mul (Fin (2 powi a)) (f32_of_int (uint (x :: u16))) = Fin (of_int (uint x) * 2 powi a)"
proof -
  have "uint x < 2 ^ 16"
    using uint_bounded [of x] by simp
  then have "uint x < 2 ^ 24"
    by simp
  from rnd32_scaled_exact [OF _ this assms] show ?thesis
    by (simp add: f32_of_u16_exact mult.commute)
qed

lemma f32_mul_base_u16:
  fixes x :: u16
  shows "f32_mul (Fin 32768) (f32_of_int (uint x)) = Fin (32768 * of_int (uint x))"
    and "f32_mul (Fin 65536) (f32_of_int (uint x)) = Fin (65536 * of_int (uint x))"
    and "f32_mul (Fin 131072) (f32_of_int (uint x)) = Fin (131072 * of_int (uint x))"
    and "f32_mul (Fin 256) (f32_of_int (uint x)) = Fin (256 * of_int (uint x))"
    and "f32_mul (Fin (1 / 256)) (f32_of_int (uint x)) = Fin (of_int (uint x) / 256)"
    and "f32_mul (Fin (1 / 128)) (f32_of_int (uint x)) = Fin (of_int (uint x) / 128)"
    and "f32_mul (Fin (1 / 64)) (f32_of_int (uint x)) = Fin (of_int (uint x) / 64)"
    and "f32_mul (Fin (1 / 8388608)) (f32_of_int (uint x)) = Fin (of_int (uint x) / 8388608)"
  using f32_mul_powi_u16 [of 15 x] f32_mul_powi_u16 [of 16 x] f32_mul_powi_u16 [of 17 x]
    f32_mul_powi_u16 [of 8 x] f32_mul_powi_u16 [of "- 8" x] f32_mul_powi_u16 [of "- 7" x]
    f32_mul_powi_u16 [of "- 6" x] f32_mul_powi_u16 [of "- 23" x]
  by (simp_all add: power_int_def power_one_over mult.commute)

section \<open>The calibration loader runs through all seven slots\<close>

lemma ReadPROM_config [simp]:
  "MS5611_ReadPROM (dev\<lparr>config := c\<rparr>) reg w = MS5611_ReadPROM dev reg w"
  by (simp add: MS5611_ReadPROM_def)

lemma u8_of_nat_small:
  assumes "k < 7"
  shows "(of_nat k :: u8) < 7" and "unat (of_nat k :: u8) = k" and "(0 < (of_nat k :: u8)) = (0 < k)"
    and "(of_nat k :: u8) + 1 = of_nat (Suc k)"
proof -
  from assms show u: "unat (of_nat k :: u8) = k"
    by (simp add: unat_of_nat)
  then show "(of_nat k :: u8) < 7"
    using assms by (simp add: word_less_nat_alt)
  from u show "(0 < (of_nat k :: u8)) = (0 < k)"
    by (simp add: word_less_nat_alt)
  show "(of_nat k :: u8) + 1 = of_nat (Suc k)"
    by simp
qed

lemma loaded_upto_Suc:
  "(loaded_upto n dev w) (n := f32_mul (loaded_upto n dev w n) (f32_of_int (uint (prom_word dev w n))))
     = loaded_upto (Suc n) dev w"
  by (rule ext) (simp add: loaded_upto_def less_Suc_eq)

lemma failed_upto_Suc:
  "failed_upto (Suc n) dev w = (failed_upto n dev w \<or> 0 < n \<and> prom_word dev w n = 0)"
  by (auto simp: failed_upto_def less_Suc_eq Suc_le_eq)

lemma PROM_loop_step:
  assumes "n < 7"
  shows "(case PROM_state n dev w of ((rslt, dev'), w') \<Rightarrow> PROM_loop dev' (of_nat n) rslt w')
       = (case PROM_state (Suc n) dev w of ((rslt, dev'), w') \<Rightarrow> PROM_loop dev' (of_nat (Suc n)) rslt w')"
  unfolding PROM_state_def prod.case
  apply (subst PROM_loop.simps)
  apply (simp only: u8_of_nat_small [OF assms] if_True)
  apply (simp add: split_beta Let_def prom_word_def [symmetric] loaded_upto_Suc failed_upto_Suc
      u8_of_nat_small(4) [OF assms, simplified])
  done

lemma PROM_loop_run:
  assumes "n \<le> 7"
  shows "(case PROM_state n dev w of ((rslt, dev'), w') \<Rightarrow> PROM_loop dev' (of_nat n) rslt w')
       = PROM_state 7 dev w"
  using assms
proof (induction n rule: inc_induct)
  case base
  show ?case
    unfolding PROM_state_def prod.case by (subst PROM_loop.simps) simp
next
  case (step n)
  then show ?case
    by (simp only: PROM_loop_step)
qed

lemma loaded_upto_0: "loaded_upto 0 dev w = C (config dev)"
  by (rule ext) (simp add: loaded_upto_def)

lemma PROM_state_0: "PROM_state 0 dev w = ((MS5611_OK, dev), w)"
  by (simp add: PROM_state_def failed_upto_def loaded_upto_0)

lemma PROM_eq: "MS5611_PROM dev w = PROM_state 7 dev w"
  using PROM_loop_run [of 0 dev w] by (simp add: PROM_state_0 MS5611_PROM_def)

lemma be16: "push_bit 8 (ucast a) OR ucast b = (word_of_int (256 * uint a + uint b) :: u16)" for a b :: u8
proof -
  have "\<not> bit (push_bit 8 (ucast a :: u16)) n \<or> \<not> bit (ucast b :: u16) n" for n
    using bit_imp_le_length [of b n] by (auto simp: bit_simps)
  then have "push_bit 8 (ucast a :: u16) OR ucast b = push_bit 8 (ucast a) + ucast b"
    by (rule disjunctive_add [symmetric])
  also have "\<dots> = word_of_int (256 * uint a + uint b)"
    by (simp add: push_bit_eq_mult)
  finally show ?thesis .
qed

lemma ReadPROM_bytes:
  "MS5611_ReadPROM dev reg w =
     (case readf dev (intf dev) (0xA0 + 2 * reg) 2 w of
        ((st, buf), w') \<Rightarrow> (word_of_int (256 * uint (buf 0) + uint (buf 1)), w'))"
  by (simp add: MS5611_ReadPROM_def MS5611_CMD_READ_PROM_def split_beta Let_def mult.commute be16)

lemma loaded_upto_7:
  "loaded_upto 7 dev w =
     (\<lambda>k. if k < 7 then f32_mul (C (config dev) k) (f32_of_int (uint (prom_word dev w k)))
          else C (config dev) k)"
  by (rule ext) (simp add: loaded_upto_def)

section \<open>Runs on the simulated transport\<close>

lemma u16_bytes: "push_bit 8 (ucast (ucast (drop_bit 8 x) :: u8)) OR ucast (ucast x :: u8) = (x :: u16)"
  by (rule bit_word_eqI) (auto simp: bit_simps)

lemma lt7: "(k::nat) < 7 \<longleftrightarrow> k = 0 \<or> k = 1 \<or> k = 2 \<or> k = 3 \<or> k = 4 \<or> k = 5 \<or> k = 6"
  by auto

lemma mock_ReadPROM:
  "k < 7 \<Longrightarrow> MS5611_ReadPROM (mock_dev prom adc) (of_nat k) w = (prom (0xA0 + 2 * of_nat k), w)"
  by (auto simp: lt7 mock_dev_def MS5611_NewDevice_def MS5611_ReadPROM_def mock_read_def
      MS5611_CMD_READ_PROM_def MS5611_CMD_ADC_READ_def u16_bytes)

lemma mock_prom_world: "k \<le> 7 \<Longrightarrow> prom_world (mock_dev prom adc) w k = w"
  by (induction k) (simp_all add: mock_ReadPROM)

lemma mock_prom_word:
  "k < 7 \<Longrightarrow> prom_word (mock_dev prom adc) w k = prom (0xA0 + 2 * of_nat k)"
  by (simp add: prom_word_def mock_prom_world mock_ReadPROM)

lemma mock_config: "config (mock_dev prom adc) = \<lparr>osRate = MS5611_ULTRA_LOW_POWER, ct = 0, C = (\<lambda>k. Fin 0)\<rparr>"
  by (simp add: mock_dev_def MS5611_NewDevice_def)

lemma prom_world_config [simp]: "prom_world (dev\<lparr>config := c\<rparr>) w k = prom_world dev w k"
  by (induction k) simp_all

lemma prom_word_config [simp]: "prom_word (dev\<lparr>config := c\<rparr>) w k = prom_word dev w k"
  by (simp add: prom_word_def)

lemma InitConstants_std:
  "MS5611_InitConstants dev 0 = dev\<lparr>config := (config dev)\<lparr>C :=
     (C (config dev)) (0 := Fin 1, 1 := Fin 32768, 2 := Fin 65536, 3 := Fin (1 / 256),
        4 := Fin (1 / 128), 5 := Fin 256, 6 := Fin (1 / 8388608))\<rparr>\<rparr>"
  by (simp add: MS5611_InitConstants_def fp_eval)

lemma InitConstants_alt:
  "mathMode \<noteq> 0 \<Longrightarrow> MS5611_InitConstants dev mathMode = dev\<lparr>config := (config dev)\<lparr>C :=
     (C (config dev)) (0 := Fin 1, 1 := Fin 65536, 2 := Fin 131072, 3 := Fin (1 / 128),
        4 := Fin (1 / 64), 5 := Fin 256, 6 := Fin (1 / 8388608))\<rparr>\<rparr>"
  by (simp add: MS5611_InitConstants_def fp_eval fun_upd_twist)

text \<open>
  After \<^verbatim>\<open>MS5611_InitConstants\<close> in the standard mode the loaded coefficients are the exact
  products: the base constants are powers of two and the words have 16 bits.
\<close>

lemma PROM_after_InitConstants:
  "map (C (config (snd (fst (MS5611_PROM (MS5611_InitConstants dev 0) w))))) [0, 1, 2, 3, 4, 5, 6] =
     [Fin (of_int (uint (prom_word dev w 0))),
      Fin (32768 * of_int (uint (prom_word dev w 1))),
      Fin (65536 * of_int (uint (prom_word dev w 2))),
      Fin (of_int (uint (prom_word dev w 3)) / 256),
      Fin (of_int (uint (prom_word dev w 4)) / 128),
      Fin (256 * of_int (uint (prom_word dev w 5))),
      Fin (of_int (uint (prom_word dev w 6)) / 8388608)]"
  using f32_mul_one_u16 [of "prom_word dev w 0"]
  by (simp add: PROM_eq PROM_state_def loaded_upto_def InitConstants_std f32_mul_base_u16)

lemma prom_zero3_words:
  "prom_zero3 0xA0 = 7" "prom_zero3 0xA2 = 40127" "prom_zero3 0xA4 = 36924" "prom_zero3 0xA6 = 0"
  "prom_zero3 0xA8 = 23282" "prom_zero3 0xAA = 33464" "prom_zero3 0xAC = 28312"
  by (simp_all add: prom_zero3_def prom_of_def)

section \<open>Claims about the calibration loader\<close>

text \<open>
  Claim C3.  \<^verbatim>\<open>MS5611_PROM\<close> goes through all its slots, whatever the words are: it ends in
  the world after the last read, every slot \<open>k\<close> holds the \<^verbatim>\<open>float\<close> product of the value it
  held before and the word read for \<open>k\<close> (so a zero word in one slot changes no other slot),
  and the status is \<^verbatim>\<open>MS5611_ERROR\<close>, which is not zero, exactly when the word of some slot
  from 1 on is zero.  The word of a slot is read with length 2 at \<^verbatim>\<open>0xA0\<close> plus twice its
  index and is the big-endian value of the two bytes.  On the base constants of the
  standard mode the products are exact: slot \<open>k\<close> then holds the base constant of \<open>k\<close> times
  the word of \<open>k\<close>.
\<close>

theorem PROM_loads_every_slot:
  "MS5611_PROM dev w =
     ((if \<exists>k\<in>{1..<7}. prom_word dev w k = 0 then MS5611_ERROR else MS5611_OK,
       dev\<lparr>config := (config dev)
          \<lparr>C := \<lambda>k. if k < 7 then f32_mul (C (config dev) k) (f32_of_int (uint (prom_word dev w k)))
                   else C (config dev) k\<rparr>\<rparr>),
      prom_world dev w 7)
   \<and> MS5611_ERROR \<noteq> 0 \<and> MS5611_OK = 0
   \<and> MS5611_ReadPROM dev reg w' =
       (case readf dev (intf dev) (0xA0 + 2 * reg) 2 w' of
          ((st, buf), w'') \<Rightarrow> (word_of_int (256 * uint (buf 0) + uint (buf 1)), w''))
   \<and> map (C (config (snd (fst (MS5611_PROM (MS5611_InitConstants dev 0) w))))) [0, 1, 2, 3, 4, 5, 6] =
       [Fin (of_int (uint (prom_word dev w 0))),
        Fin (32768 * of_int (uint (prom_word dev w 1))),
        Fin (65536 * of_int (uint (prom_word dev w 2))),
        Fin (of_int (uint (prom_word dev w 3)) / 256),
        Fin (of_int (uint (prom_word dev w 4)) / 128),
        Fin (256 * of_int (uint (prom_word dev w 5))),
        Fin (of_int (uint (prom_word dev w 6)) / 8388608)]"
proof (intro conjI)
  show "MS5611_PROM dev w =
     ((if \<exists>k\<in>{1..<7}. prom_word dev w k = 0 then MS5611_ERROR else MS5611_OK,
       dev\<lparr>config := (config dev)
          \<lparr>C := \<lambda>k. if k < 7 then f32_mul (C (config dev) k) (f32_of_int (uint (prom_word dev w k)))
                   else C (config dev) k\<rparr>\<rparr>),
      prom_world dev w 7)"
    by (simp add: PROM_eq PROM_state_def failed_upto_def loaded_upto_7)
  show "MS5611_ERROR \<noteq> 0" and "MS5611_OK = 0"
    by (simp_all add: MS5611_ERROR_def MS5611_OK_def)
  show "MS5611_ReadPROM dev reg w' =
       (case readf dev (intf dev) (0xA0 + 2 * reg) 2 w' of
          ((st, buf), w'') \<Rightarrow> (word_of_int (256 * uint (buf 0) + uint (buf 1)), w''))"
    by (rule ReadPROM_bytes)
  show "map (C (config (snd (fst (MS5611_PROM (MS5611_InitConstants dev 0) w))))) [0, 1, 2, 3, 4, 5, 6] =
       [Fin (of_int (uint (prom_word dev w 0))),
        Fin (32768 * of_int (uint (prom_word dev w 1))),
        Fin (65536 * of_int (uint (prom_word dev w 2))),
        Fin (of_int (uint (prom_word dev w 3)) / 256),
        Fin (of_int (uint (prom_word dev w 4)) / 128),
        Fin (256 * of_int (uint (prom_word dev w 5))),
        Fin (of_int (uint (prom_word dev w 6)) / 8388608)]"
    by (rule PROM_after_InitConstants)
qed

theorem PROM_loads_every_slot_witness:
  "fst (fst (MS5611_PROM (MS5611_InitConstants (mock_dev prom_zero3 adc_none) 0) 0)) = 1
   \<and> map (C (config (snd (fst (MS5611_PROM (MS5611_InitConstants (mock_dev prom_zero3 adc_none) 0) 0)))))
         [0, 1, 2, 3, 4, 5, 6, 7]
       = [Fin 7, Fin 1314881536, Fin 2419851264, Fin 0, Fin (11641 / 64), Fin 8566784,
          Fin (3539 / 1048576), Fin 0]
   \<and> snd (MS5611_PROM (MS5611_InitConstants (mock_dev prom_zero3 adc_none) 0) 0) = 0"
proof -
  let ?d = "MS5611_InitConstants (mock_dev prom_zero3 adc_none) 0"
  have words: "prom_word ?d 0 k = prom_zero3 (0xA0 + 2 * of_nat k)" if "k < 7" for k
    using that by (simp add: InitConstants_std mock_prom_word)
  have "prom_word ?d 0 3 = 0"
    by (simp add: words prom_zero3_words)
  then have zero: "\<exists>k\<in>{1..<7}. prom_word ?d 0 k = 0"
    by (intro bexI [of _ 3]) simp_all
  have world: "prom_world ?d 0 7 = 0"
    by (simp add: InitConstants_std mock_prom_world)
  have c: "C (config ?d) = (\<lambda>k. Fin 0) (0 := Fin 1, 1 := Fin 32768, 2 := Fin 65536, 3 := Fin (1 / 256),
        4 := Fin (1 / 128), 5 := Fin 256, 6 := Fin (1 / 8388608))"
    by (simp add: InitConstants_std mock_config)
  from PROM_loads_every_slot [of ?d 0 0 0] zero
  have "MS5611_PROM ?d 0 =
     ((MS5611_ERROR,
       ?d\<lparr>config := (config ?d)
          \<lparr>C := \<lambda>k. if k < 7 then f32_mul (C (config ?d) k) (f32_of_int (uint (prom_word ?d 0 k)))
                   else C (config ?d) k\<rparr>\<rparr>),
      prom_world ?d 0 7)"
    by simp
  then show ?thesis
    by (simp add: world c words prom_zero3_words MS5611_ERROR_def fp_eval)
qed

section \<open>The sampling rate\<close>

text \<open>
  Claim C7.  After \<^verbatim>\<open>MS5611_SetOSRate\<close> with a rate \<open>r\<close>, \<^verbatim>\<open>MS5611_GetOSRate\<close> returns \<open>r\<close>
  and the stored conversion time is the entry of the table 1, 2, 3, 5, 10 at the ordinal of
  \<open>r\<close>, that is the table value of the stored rate: the one call sets both fields.  The
  ordinals of the five rates are 0 to 4, and the coefficients are left alone.
\<close>

theorem SetOSRate_GetOSRate:
  "MS5611_GetOSRate (MS5611_SetOSRate dev r) = r
   \<and> ct (config (MS5611_SetOSRate dev r)) = [1, 2, 3, 5, 10] ! osr_ord r
   \<and> ct (config (MS5611_SetOSRate dev r)) = osrToConversitonTime (MS5611_GetOSRate (MS5611_SetOSRate dev r))
   \<and> map osr_ord [MS5611_ULTRA_LOW_POWER, MS5611_LOW_POWER, MS5611_STANDARD, MS5611_HIGH_RES,
          MS5611_ULTRA_HIGH_RES] = [0, 1, 2, 3, 4]
   \<and> C (config (MS5611_SetOSRate dev r)) = C (config dev)"
  by (cases r) (simp_all add: MS5611_GetOSRate_def MS5611_SetOSRate_def)

section \<open>Initialisation\<close>

lemma Init_eq:
  "MS5611_Init dev w =
     PROM_state 7 (MS5611_InitConstants (MS5611_SetOSRate dev MS5611_ULTRA_HIGH_RES) 0)
       (delayf dev 20 (MS5611_Reset dev w))"
  by (simp add: MS5611_Init_def PROM_eq MS5611_DEFAULT_OSR_def MS5611_InitConstants_def
      MS5611_SetOSRate_def Let_def)

lemma mock_Init_dev:
  "snd (fst (MS5611_Init (mock_dev prom adc) w)) =
     (mock_dev prom adc)\<lparr>config := \<lparr>osRate = MS5611_ULTRA_HIGH_RES, ct = 10,
        C = (\<lambda>k. Fin 0)
          (0 := f32_mul (Fin 1) (f32_of_int (uint (prom 0xA0))),
           1 := f32_mul (Fin 32768) (f32_of_int (uint (prom 0xA2))),
           2 := f32_mul (Fin 65536) (f32_of_int (uint (prom 0xA4))),
           3 := f32_mul (Fin (1 / 256)) (f32_of_int (uint (prom 0xA6))),
           4 := f32_mul (Fin (1 / 128)) (f32_of_int (uint (prom 0xA8))),
           5 := f32_mul (Fin 256) (f32_of_int (uint (prom 0xAA))),
           6 := f32_mul (Fin (1 / 8388608)) (f32_of_int (uint (prom 0xAC))))\<rparr>\<rparr>"
proof -
  let ?d = "MS5611_InitConstants (MS5611_SetOSRate (mock_dev prom adc) MS5611_ULTRA_HIGH_RES) 0"
  have d: "?d = (mock_dev prom adc)\<lparr>config := \<lparr>osRate = MS5611_ULTRA_HIGH_RES, ct = 10,
        C = (\<lambda>k. Fin 0) (0 := Fin 1, 1 := Fin 32768, 2 := Fin 65536, 3 := Fin (1 / 256),
        4 := Fin (1 / 128), 5 := Fin 256, 6 := Fin (1 / 8388608))\<rparr>\<rparr>"
    by (simp add: InitConstants_std MS5611_SetOSRate_def mock_config)
  have "loaded_upto 7 ?d w' k = ((\<lambda>k. Fin 0)
          (0 := f32_mul (Fin 1) (f32_of_int (uint (prom 0xA0))),
           1 := f32_mul (Fin 32768) (f32_of_int (uint (prom 0xA2))),
           2 := f32_mul (Fin 65536) (f32_of_int (uint (prom 0xA4))),
           3 := f32_mul (Fin (1 / 256)) (f32_of_int (uint (prom 0xA6))),
           4 := f32_mul (Fin (1 / 128)) (f32_of_int (uint (prom 0xA8))),
           5 := f32_mul (Fin 256) (f32_of_int (uint (prom 0xAA))),
           6 := f32_mul (Fin (1 / 8388608)) (f32_of_int (uint (prom 0xAC))))) k" for w' k
  proof (cases "k < 7")
    case True
    then show ?thesis
      unfolding d by (auto simp: lt7 loaded_upto_def mock_prom_word)
  next
    case False
    then show ?thesis
      unfolding d by (simp add: loaded_upto_def)
  qed
  then have "loaded_upto 7 ?d w' = (\<lambda>k. Fin 0)
          (0 := f32_mul (Fin 1) (f32_of_int (uint (prom 0xA0))),
           1 := f32_mul (Fin 32768) (f32_of_int (uint (prom 0xA2))),
           2 := f32_mul (Fin 65536) (f32_of_int (uint (prom 0xA4))),
           3 := f32_mul (Fin (1 / 256)) (f32_of_int (uint (prom 0xA6))),
           4 := f32_mul (Fin (1 / 128)) (f32_of_int (uint (prom 0xA8))),
           5 := f32_mul (Fin 256) (f32_of_int (uint (prom 0xAA))),
           6 := f32_mul (Fin (1 / 8388608)) (f32_of_int (uint (prom 0xAC))))" for w'
    by (intro ext)
  then show ?thesis
    by (simp add: Init_eq PROM_state_def) (simp add: d)
qed

lemma dev_datasheet_eq:
  "dev_datasheet = (mock_dev prom_datasheet adc_datasheet)\<lparr>config := \<lparr>osRate = MS5611_ULTRA_HIGH_RES, ct = 10,
        C = (\<lambda>k. Fin 0) (0 := Fin 7, 1 := Fin 1314881536, 2 := Fin 2419851264,
          3 := Fin (23317 / 256), 4 := Fin (11641 / 64), 5 := Fin 8566784, 6 := Fin (3539 / 1048576))\<rparr>\<rparr>"
  by (simp add: dev_datasheet_def mock_Init_dev prom_datasheet_def prom_of_def) (simp add: fp_eval)

lemma dev_datasheet_C:
  "C (config dev_datasheet) = (\<lambda>k. Fin 0) (0 := Fin 7, 1 := Fin 1314881536, 2 := Fin 2419851264,
          3 := Fin (23317 / 256), 4 := Fin (11641 / 64), 5 := Fin 8566784, 6 := Fin (3539 / 1048576))"
  by (simp add: dev_datasheet_eq)

lemma dev_low_C:
  "C (config dev_low) = (\<lambda>k. Fin 0) (0 := Fin 2, 1 := Fin 1310720000, 2 := Fin 1310785536,
          3 := Fin (23317 / 256), 4 := Fin (11641 / 64), 5 := Fin 8566784, 6 := Fin (3539 / 1048576))"
  by (simp add: dev_low_def mock_Init_dev prom_low_def prom_of_def) (simp add: fp_eval)

lemma dev_cold_C:
  "C (config dev_cold) = (\<lambda>k. Fin 0) (0 := Fin 2, 1 := Fin 1310720000, 2 := Fin 1310785536,
          3 := Fin (23317 / 256), 4 := Fin (11641 / 64), 5 := Fin 10240000, 6 := Fin (625 / 131072))"
  by (simp add: dev_cold_def mock_Init_dev prom_cold_def prom_of_def) (simp add: fp_eval)

lemma mock_fields:
  "intf (mock_dev prom adc) = ()"
  "writef (mock_dev prom adc) = (\<lambda>i reg tx len n. (0, n))"
  "delayf (mock_dev prom adc) = (\<lambda>ms n. n)"
  "readf (mock_dev prom adc) = mock_read prom adc"
  by (simp_all add: mock_dev_def MS5611_NewDevice_def)

lemma prom_world_writef [simp]: "prom_world (dev\<lparr>writef := f\<rparr>) w k = prom_world dev w k"
  by (induction k) (simp_all add: MS5611_ReadPROM_def)

lemma prom_word_writef [simp]: "prom_word (dev\<lparr>writef := f\<rparr>) w k = prom_word dev w k"
  by (simp add: prom_word_def MS5611_ReadPROM_def)

lemma Init_handle:
  "MS5611_InitConstants (MS5611_SetOSRate dev MS5611_ULTRA_HIGH_RES) 0 =
     dev\<lparr>config := \<lparr>osRate = MS5611_ULTRA_HIGH_RES, ct = 10,
       C = (C (config dev)) (0 := Fin 1, 1 := Fin 32768, 2 := Fin 65536, 3 := Fin (1 / 256),
              4 := Fin (1 / 128), 5 := Fin 256, 6 := Fin (1 / 8388608))\<rparr>\<rparr>"
  by (simp add: InitConstants_std MS5611_SetOSRate_def)

lemma loaded_std:
  "loaded_upto 7 (dev\<lparr>config := \<lparr>osRate = r, ct = t,
       C = (C (config dev)) (0 := Fin 1, 1 := Fin 32768, 2 := Fin 65536, 3 := Fin (1 / 256),
              4 := Fin (1 / 128), 5 := Fin 256, 6 := Fin (1 / 8388608))\<rparr>\<rparr>) v =
     (C (config dev))
       (0 := Fin (of_int (uint (prom_word dev v 0))),
        1 := Fin (32768 * of_int (uint (prom_word dev v 1))),
        2 := Fin (65536 * of_int (uint (prom_word dev v 2))),
        3 := Fin (of_int (uint (prom_word dev v 3)) / 256),
        4 := Fin (of_int (uint (prom_word dev v 4)) / 128),
        5 := Fin (256 * of_int (uint (prom_word dev v 5))),
        6 := Fin (of_int (uint (prom_word dev v 6)) / 8388608))"
proof (rule ext)
  fix k
  show "loaded_upto 7 (dev\<lparr>config := \<lparr>osRate = r, ct = t,
       C = (C (config dev)) (0 := Fin 1, 1 := Fin 32768, 2 := Fin 65536, 3 := Fin (1 / 256),
              4 := Fin (1 / 128), 5 := Fin 256, 6 := Fin (1 / 8388608))\<rparr>\<rparr>) v k =
     ((C (config dev))
       (0 := Fin (of_int (uint (prom_word dev v 0))),
        1 := Fin (32768 * of_int (uint (prom_word dev v 1))),
        2 := Fin (65536 * of_int (uint (prom_word dev v 2))),
        3 := Fin (of_int (uint (prom_word dev v 3)) / 256),
        4 := Fin (of_int (uint (prom_word dev v 4)) / 128),
        5 := Fin (256 * of_int (uint (prom_word dev v 5))),
        6 := Fin (of_int (uint (prom_word dev v 6)) / 8388608))) k"
  proof (cases "k < 7")
    case True
    then show ?thesis
      using f32_mul_one_u16 [of "prom_word dev v 0"]
      by (auto simp: lt7 loaded_upto_def f32_mul_base_u16)
  next
    case False
    then show ?thesis
      by (simp add: loaded_upto_def)
  qed
qed

lemma Init_explicit:
  "MS5611_Init dev w =
     ((if \<exists>k\<in>{1..<7}. prom_word dev (after_reset dev w) k = 0 then MS5611_ERROR else MS5611_OK,
       dev\<lparr>config := \<lparr>osRate = MS5611_ULTRA_HIGH_RES, ct = 10,
         C = (C (config dev))
           (0 := Fin (of_int (uint (prom_word dev (after_reset dev w) 0))),
            1 := Fin (32768 * of_int (uint (prom_word dev (after_reset dev w) 1))),
            2 := Fin (65536 * of_int (uint (prom_word dev (after_reset dev w) 2))),
            3 := Fin (of_int (uint (prom_word dev (after_reset dev w) 3)) / 256),
            4 := Fin (of_int (uint (prom_word dev (after_reset dev w) 4)) / 128),
            5 := Fin (256 * of_int (uint (prom_word dev (after_reset dev w) 5))),
            6 := Fin (of_int (uint (prom_word dev (after_reset dev w) 6)) / 8388608))\<rparr>\<rparr>),
      prom_world dev (after_reset dev w) 7)"
  unfolding Init_eq Init_handle PROM_state_def loaded_std
  by (simp add: failed_upto_def after_reset_def MS5611_Reset_def MS5611_CMD_RESET_def)

lemma Config_all_updated:
  "cfg\<lparr>osRate := r, ct := t, C := c\<rparr> = \<lparr>osRate = r, ct = t, C = c\<rparr>"
  by (cases cfg) simp

lemma Init_order: "MS5611_Init dev w = Init_in_order dev w"
  by (simp add: Init_eq PROM_eq Init_handle Init_in_order_def MS5611_Reset_def MS5611_CMD_RESET_def
      Let_def Config_all_updated)

lemma Init_status_no_write:
  "fst (fst (MS5611_Init (dev\<lparr>writef := \<lambda>i reg tx len v. (s, snd (writef dev i reg tx len v))\<rparr>) w))
     = fst (fst (MS5611_Init dev w))"
  by (simp add: Init_explicit after_reset_def)

lemma log_ReadPROM:
  "MS5611_ReadPROM (log_dev prom) reg tr = (prom (0xA0 + reg * 2), tr @ [Bus_read (0xA0 + reg * 2) 2])"
  by (simp add: log_dev_def MS5611_NewDevice_def MS5611_ReadPROM_def MS5611_CMD_READ_PROM_def
      u16_bytes Let_def)

lemma log_after_reset: "after_reset (log_dev prom) tr = tr @ [Bus_write 0x1E, Bus_delay 20]"
  by (simp add: after_reset_def log_dev_def MS5611_NewDevice_def)

lemma log_prom_world:
  "prom_world (log_dev prom) tr 7 =
     tr @ [Bus_read 0xA0 2, Bus_read 0xA2 2, Bus_read 0xA4 2, Bus_read 0xA6 2, Bus_read 0xA8 2,
           Bus_read 0xAA 2, Bus_read 0xAC 2]"
  by (simp add: eval_nat_numeral log_ReadPROM)

lemma log_prom_word:
  "k < 7 \<Longrightarrow> prom_word (log_dev prom) tr k = prom (0xA0 + 2 * of_nat k)"
  by (auto simp: lt7 prom_word_def log_ReadPROM)

lemma mock_after_reset: "after_reset (mock_dev prom adc) w = w"
  by (simp add: after_reset_def mock_fields)

text \<open>
  Claim C5.  \<^verbatim>\<open>MS5611_Init\<close> is the initialisation in the order of the specification: the
  reset command \<^verbatim>\<open>0x1E\<close> and a delay of 20 ms, the rate set to ultra high resolution, the
  base constants of the standard mode, then the calibration load.  The source calls the
  delay after the two updates of the handle; the delay callback is given the duration only
  and the two updates touch the handle only, so both orders are the same function.
  \<^verbatim>\<open>MS5611_Init\<close> leaves the rate ultra high resolution, the conversion time 10 and in
  every slot the base constant of the standard mode times the word read for the slot, in
  the world after the reset, the delay and the seven reads.  The status is that of the
  load, nonzero exactly when a word of a slot from 1 to 6 reads zero; it is the same
  whatever status the reset write returns, and setting the rate yields none.
\<close>

theorem Init_sequence_and_status:
  "MS5611_Init dev w = Init_in_order dev w
   \<and> MS5611_Init dev w =
       ((if \<exists>k\<in>{1..<7}. prom_word dev (after_reset dev w) k = 0 then MS5611_ERROR else MS5611_OK,
         dev\<lparr>config := \<lparr>osRate = MS5611_ULTRA_HIGH_RES, ct = 10,
           C = (C (config dev))
             (0 := Fin (of_int (uint (prom_word dev (after_reset dev w) 0))),
              1 := Fin (32768 * of_int (uint (prom_word dev (after_reset dev w) 1))),
              2 := Fin (65536 * of_int (uint (prom_word dev (after_reset dev w) 2))),
              3 := Fin (of_int (uint (prom_word dev (after_reset dev w) 3)) / 256),
              4 := Fin (of_int (uint (prom_word dev (after_reset dev w) 4)) / 128),
              5 := Fin (256 * of_int (uint (prom_word dev (after_reset dev w) 5))),
              6 := Fin (of_int (uint (prom_word dev (after_reset dev w) 6)) / 8388608))\<rparr>\<rparr>),
        prom_world dev (after_reset dev w) 7)
   \<and> MS5611_ERROR \<noteq> 0 \<and> MS5611_OK = 0
   \<and> fst (fst (MS5611_Init (dev\<lparr>writef := \<lambda>i reg tx len v. (s, snd (writef dev i reg tx len v))\<rparr>) w))
       = fst (fst (MS5611_Init dev w))
   \<and> MS5611_Init dev w =
       MS5611_PROM (MS5611_InitConstants (MS5611_SetOSRate dev MS5611_ULTRA_HIGH_RES) 0)
         (delayf dev 20 (snd (writef dev (intf dev) 0x1E [] 0 w)))
   \<and> (fst (fst (MS5611_Init dev w)) \<noteq> 0
        \<longleftrightarrow> (\<exists>k\<in>{1..<7}.
              prom_word dev (delayf dev 20 (snd (writef dev (intf dev) 0x1E [] 0 w))) k = 0))"
proof (intro conjI)
  show "MS5611_Init dev w = Init_in_order dev w"
    by (rule Init_order)
  show "MS5611_Init dev w =
       ((if \<exists>k\<in>{1..<7}. prom_word dev (after_reset dev w) k = 0 then MS5611_ERROR else MS5611_OK,
         dev\<lparr>config := \<lparr>osRate = MS5611_ULTRA_HIGH_RES, ct = 10,
           C = (C (config dev))
             (0 := Fin (of_int (uint (prom_word dev (after_reset dev w) 0))),
              1 := Fin (32768 * of_int (uint (prom_word dev (after_reset dev w) 1))),
              2 := Fin (65536 * of_int (uint (prom_word dev (after_reset dev w) 2))),
              3 := Fin (of_int (uint (prom_word dev (after_reset dev w) 3)) / 256),
              4 := Fin (of_int (uint (prom_word dev (after_reset dev w) 4)) / 128),
              5 := Fin (256 * of_int (uint (prom_word dev (after_reset dev w) 5))),
              6 := Fin (of_int (uint (prom_word dev (after_reset dev w) 6)) / 8388608))\<rparr>\<rparr>),
        prom_world dev (after_reset dev w) 7)"
    by (rule Init_explicit)
  show "MS5611_ERROR \<noteq> 0" and "MS5611_OK = 0"
    by (simp_all add: MS5611_ERROR_def MS5611_OK_def)
  show "fst (fst (MS5611_Init (dev\<lparr>writef := \<lambda>i reg tx len v. (s, snd (writef dev i reg tx len v))\<rparr>) w))
       = fst (fst (MS5611_Init dev w))"
    by (rule Init_status_no_write)
  show "MS5611_Init dev w =
       MS5611_PROM (MS5611_InitConstants (MS5611_SetOSRate dev MS5611_ULTRA_HIGH_RES) 0)
         (delayf dev 20 (snd (writef dev (intf dev) 0x1E [] 0 w)))"
    by (simp add: Init_eq PROM_eq MS5611_Reset_def MS5611_CMD_RESET_def)
  show "fst (fst (MS5611_Init dev w)) \<noteq> 0
        \<longleftrightarrow> (\<exists>k\<in>{1..<7}.
              prom_word dev (delayf dev 20 (snd (writef dev (intf dev) 0x1E [] 0 w))) k = 0)"
    by (simp add: Init_explicit after_reset_def MS5611_ERROR_def MS5611_OK_def)
qed

theorem Init_sequence_and_status_witness:
  "fst (writef (log_dev prom_datasheet) () 0x1E [] 0 []) = 1
   \<and> fst (fst (MS5611_Init (log_dev prom_datasheet) [])) = 0
   \<and> snd (MS5611_Init (log_dev prom_datasheet) []) =
       [Bus_write 0x1E, Bus_delay 20, Bus_read 0xA0 2, Bus_read 0xA2 2, Bus_read 0xA4 2,
        Bus_read 0xA6 2, Bus_read 0xA8 2, Bus_read 0xAA 2, Bus_read 0xAC 2]
   \<and> osRate (config (snd (fst (MS5611_Init (log_dev prom_datasheet) [])))) = MS5611_ULTRA_HIGH_RES
   \<and> ct (config (snd (fst (MS5611_Init (log_dev prom_datasheet) [])))) = 10
   \<and> map (C (config (snd (fst (MS5611_Init (log_dev prom_datasheet) []))))) [0, 1, 2, 3, 4, 5, 6] =
       [Fin 7, Fin 1314881536, Fin 2419851264, Fin (23317 / 256), Fin (11641 / 64), Fin 8566784,
        Fin (3539 / 1048576)]
   \<and> fst (fst (MS5611_Init (log_dev prom_zero3) [])) = 1"
proof -
  have ok: "\<not> (\<exists>k\<in>{Suc 0..<7}. prom_word (log_dev prom_datasheet) tr k = 0)" for tr
    by (auto simp: log_prom_word lt7 prom_datasheet_def prom_of_def)
  have "prom_word (log_dev prom_zero3) tr 3 = 0" for tr
    by (simp add: log_prom_word prom_zero3_words)
  then have bad: "\<exists>k\<in>{Suc 0..<7}. prom_word (log_dev prom_zero3) tr k = 0" for tr
    by (intro bexI [of _ 3]) simp_all
  have words: "prom_word (log_dev prom_datasheet) tr 0 = 7" "prom_word (log_dev prom_datasheet) tr (Suc 0) = 40127"
    "prom_word (log_dev prom_datasheet) tr 2 = 36924" "prom_word (log_dev prom_datasheet) tr 3 = 23317"
    "prom_word (log_dev prom_datasheet) tr 4 = 23282" "prom_word (log_dev prom_datasheet) tr 5 = 33464"
    "prom_word (log_dev prom_datasheet) tr 6 = 28312" for tr
    by (simp_all add: log_prom_word prom_datasheet_def prom_of_def)
  have wr: "fst (writef (log_dev prom_datasheet) () 0x1E [] 0 []) = 1"
    by (simp add: log_dev_def MS5611_NewDevice_def)
  from Init_sequence_and_status [of "log_dev prom_datasheet" "[]", THEN conjunct2, THEN conjunct1]
  have a: "MS5611_Init (log_dev prom_datasheet) [] =
       ((0, (log_dev prom_datasheet)\<lparr>config := \<lparr>osRate = MS5611_ULTRA_HIGH_RES, ct = 10,
           C = (C (config (log_dev prom_datasheet)))
             (0 := Fin 7, 1 := Fin 1314881536, 2 := Fin 2419851264, 3 := Fin (23317 / 256),
              4 := Fin (11641 / 64), 5 := Fin 8566784, 6 := Fin (3539 / 1048576))\<rparr>\<rparr>),
        [Bus_write 0x1E, Bus_delay 20, Bus_read 0xA0 2, Bus_read 0xA2 2, Bus_read 0xA4 2,
         Bus_read 0xA6 2, Bus_read 0xA8 2, Bus_read 0xAA 2, Bus_read 0xAC 2])"
    by (simp add: ok words log_after_reset log_prom_world MS5611_OK_def)
  from Init_sequence_and_status [of "log_dev prom_zero3" "[]", THEN conjunct2, THEN conjunct1]
  have b: "fst (fst (MS5611_Init (log_dev prom_zero3) [])) = 1"
    by (simp add: bad MS5611_ERROR_def)
  from wr b show ?thesis
    unfolding a by simp
qed

section \<open>The compensation engine\<close>

lemma sint_i32_chk: "i32_chk v = Some x \<Longrightarrow> sint x = v"
  by (auto simp: i32_chk_def signed_take_bit_int_eq_self_iff sint_sbintrunc' split: if_splits)

lemma i32_chk_ex:
  assumes "- (2 ^ 31) \<le> v" and "v < 2 ^ 31"
  obtains x where "i32_chk v = Some x" and "sint x = v"
proof -
  from assms have "i32_chk v = Some (word_of_int v)"
    by (simp add: i32_chk_def)
  then show thesis
    using that sint_i32_chk by blast
qed

lemma square_bound:
  fixes x :: int
  assumes "- b \<le> x" and "x \<le> 0" and "0 \<le> b"
  shows "x * x \<le> b * b"
proof -
  have "(- x) * (- x) \<le> b * b"
    using assms by (intro mult_mono) auto
  then show "x * x \<le> b * b"
    by simp
qed

lemma square_i32:
  assumes "- 46340 \<le> sint (x :: i32)" and "sint x \<le> 0"
  obtains y where "i32_mul x x = Some y" and "sint y = sint x * sint x"
proof -
  have "sint x * sint x \<le> 46340 * 46340"
    using square_bound [of 46340 "sint x"] assms by simp
  then have up: "sint x * sint x < 2 ^ 31"
    by simp
  have "(0::int) \<le> sint x * sint x"
    by simp
  then have "- (2 ^ 31) \<le> sint x * sint x"
    by (rule order_trans [rotated]) simp
  from i32_chk_ex [OF this up] show thesis
    using that by (auto simp: i32_mul_def)
qed

text \<open>
  The structure of \<^verbatim>\<open>MS5611_RawDataProcess\<close>: without compensation, or at 20.00 degrees
  and above, it is the first-order formula; below, and down to -443.40 degrees, it is the
  second-order formula; below that the square of \<open>TEMP - 2000\<close> does not fit \<^verbatim>\<open>int32_t\<close>.
\<close>

lemma RawDataProcess_off:
  "MS5611_RawDataProcess dev D1 D2 0 = first_order_with pressure_dec dev D1 D2"
  by (simp add: MS5611_RawDataProcess_def first_order_with_def first_order_TEMP_def
      first_order_dT_def first_order_SENS_def first_order_OFFSET_def pressure_dec_def
      pressure_with_def Let_def)

lemma RawDataProcess_warm:
  assumes "first_order_TEMP dev D2 = Some T" and "2000 \<le> sint T"
  shows "MS5611_RawDataProcess dev D1 D2 compensation = first_order_with pressure_dec dev D1 D2"
  using assms
  by (simp add: MS5611_RawDataProcess_def first_order_with_def first_order_TEMP_def
      first_order_dT_def first_order_SENS_def first_order_OFFSET_def pressure_dec_def
      pressure_with_def Let_def)

lemma RawDataProcess_cold:
  assumes comp: "compensation \<noteq> 0" and T: "first_order_TEMP dev D2 = Some T"
    and cold: "sint T < 2000" and lo: "- 44340 \<le> sint T"
  shows "MS5611_RawDataProcess dev D1 D2 compensation = compensated dev D1 D2"
proof -
  obtain d where d: "i32_sub T 2000 = Some d" and sd: "sint d = sint T - 2000"
    using i32_chk_ex [of "sint T - 2000"] cold lo by (auto simp: i32_sub_def)
  obtain dd where dd: "i32_mul d d = Some dd" and sdd: "sint dd = (sint T - 2000) * (sint T - 2000)"
    using square_i32 [of d] cold lo by (auto simp: sd)
  from T have T': "fp_to_i32 (f32_add (f32_of_int 2000)
      (f32_mul (f32_sub (f32_of_int (uint D2)) (C (config dev) 5)) (C (config dev) 6))) = Some T"
    by (simp add: first_order_TEMP_def first_order_dT_def)
  show ?thesis
  proof (cases "sint T < - 1500")
    case True
    obtain e where e: "i32_add T 1500 = Some e" and se: "sint e = sint T + 1500"
      using i32_chk_ex [of "sint T + 1500"] cold lo by (auto simp: i32_add_def)
    obtain ee where ee: "i32_mul e e = Some ee" and see: "sint ee = (sint T + 1500) * (sint T + 1500)"
      using square_i32 [of e] True lo by (auto simp: se)
    show ?thesis
      using comp cold True
      by (simp add: MS5611_RawDataProcess_def compensated_def T T' d dd sdd e ee see
          first_order_dT_def first_order_SENS_def first_order_OFFSET_def pressure_dec_def
          pressure_with_def second_order_T2_def second_order_OFFSET2_def second_order_SENS2_def
          Let_def)
  next
    case False
    show ?thesis
      using comp cold False
      by (simp add: MS5611_RawDataProcess_def compensated_def T T' d dd sdd
          first_order_dT_def first_order_SENS_def first_order_OFFSET_def pressure_dec_def
          pressure_with_def second_order_T2_def second_order_OFFSET2_def second_order_SENS2_def
          Let_def)
  qed
qed

lemma RawDataProcess_undefined:
  assumes comp: "compensation \<noteq> 0" and T: "first_order_TEMP dev D2 = Some T"
    and lo: "sint T < - 44340"
  shows "MS5611_RawDataProcess dev D1 D2 compensation = None"
proof -
  have "Option.bind (i32_sub T 2000) (\<lambda>d. i32_mul d d) = None"
  proof (cases "i32_sub T 2000")
    case None
    then show ?thesis by simp
  next
    case (Some d)
    then have sd: "sint d = sint T - 2000"
      by (simp add: i32_sub_def sint_i32_chk)
    have "46341 * 46341 \<le> (- sint d) * (- sint d)"
      using lo sd by (intro mult_mono) auto
    then have "\<not> sint d * sint d < 2 ^ 31"
      by simp
    then show ?thesis
      using Some by (simp add: i32_mul_def i32_chk_def)
  qed
  then have sq: "Option.bind (i32_sub T 2000) (\<lambda>d. Option.bind (i32_mul d d) f) = None" for f :: "i32 \<Rightarrow> 'x option"
    by (cases "i32_sub T 2000") (auto simp: bind_eq_None_conv)
  from T have T': "fp_to_i32 (f32_add (f32_of_int 2000)
      (f32_mul (f32_sub (f32_of_int (uint D2)) (C (config dev) 5)) (C (config dev) 6))) = Some T"
    by (simp add: first_order_TEMP_def first_order_dT_def)
  show ?thesis
    using comp lo by (simp add: MS5611_RawDataProcess_def T' sq Let_def)
qed

lemma RawDataProcess_no_TEMP:
  assumes "first_order_TEMP dev D2 = None"
  shows "MS5611_RawDataProcess dev D1 D2 compensation = None"
  using assms
  by (simp add: MS5611_RawDataProcess_def first_order_TEMP_def first_order_dT_def Let_def)

lemma first_order_no_TEMP:
  "first_order_TEMP dev D2 = None \<Longrightarrow> first_order_with press dev D1 D2 = None"
  by (simp add: first_order_with_def)

lemma compensated_no_TEMP:
  "first_order_TEMP dev D2 = None \<Longrightarrow> compensated dev D1 D2 = None"
  by (simp add: compensated_def)

lemmas formula_defs = first_order_with_def first_order_TEMP_def first_order_dT_def
  first_order_SENS_def first_order_OFFSET_def pressure_dec_def pressure_pow2_def pressure_with_def
  second_order_T2_def second_order_OFFSET2_def second_order_SENS2_def compensated_def

lemma ev1: "first_order_with pressure_dec dev_datasheet 9085466 8569150 = Some \<lparr>temperature = 2007, pressure = 100009\<rparr>"
  by (simp add: formula_defs dev_datasheet_C fp_eval)

lemma ev2: "compensated dev_datasheet 9085466 0 = Some \<lparr>temperature = - 61087, pressure = - 361642\<rparr>"
  by (simp add: formula_defs dev_datasheet_C fp_eval Let_def)

lemma ev3: "first_order_TEMP dev_datasheet 0 = Some (- 26913)"
  by (simp add: formula_defs dev_datasheet_C fp_eval)

text \<open>
  Claim C8.  With the compensation flag off, \<^verbatim>\<open>MS5611_RawDataProcess\<close> returns the
  first-order temperature \<open>2000 + dT * C[6]\<close>, truncated, and the pressure of the
  first-order \<open>SENS = C[1] + dT * C[3]\<close> and \<open>OFFSET = C[2] + dT * C[4]\<close>, with no
  second-order term, for every handle and every pair of samples, whatever the temperature
  is.  Where a conversion to \<^verbatim>\<open>int32_t\<close> is undefined there is no result.
\<close>

theorem RawDataProcess_without_compensation:
  "MS5611_RawDataProcess dev D1 D2 0 =
     (case first_order_TEMP dev D2 of
        None \<Rightarrow> None
      | Some T \<Rightarrow>
          (case pressure_dec D1 (first_order_SENS dev D2) (first_order_OFFSET dev D2) of
             None \<Rightarrow> None
           | Some P \<Rightarrow> Some \<lparr>temperature = T, pressure = P\<rparr>))"
  by (simp add: RawDataProcess_off first_order_with_def split: option.splits)

text \<open>
  Claim C1, as stated, fails: the driver scales by the decimal constants
  \<^verbatim>\<open>4.76837158205E-7\<close> and \<^verbatim>\<open>3.051757813E-5\<close>, which as \<^verbatim>\<open>double\<close> values are not the powers
  of two.  On the handle initialised with the calibration words 40000 and 20001 for
  \<open>C[1]\<close> and \<open>C[2]\<close>, with \<open>D1 = 2097152\<close>, \<open>D2 = 8566784\<close> and compensation off, the
  driver returns the pressure -1 where the formula with the two powers of two gives -2,
  in floating-point and in exact arithmetic alike.
\<close>

theorem first_order_pow2_counterexample:
  "MS5611_RawDataProcess dev_low 2097152 8566784 0 = Some \<lparr>temperature = 2000, pressure = - 1\<rparr>
   \<and> first_order_with pressure_pow2 dev_low 2097152 8566784
       = Some \<lparr>temperature = 2000, pressure = - 2\<rparr>
   \<and> first_order_SENS dev_low 8566784 = Fin 1310720000
   \<and> first_order_OFFSET dev_low 8566784 = Fin 1310785536
   \<and> (2097152 * 1310720000 / 2 ^ 21 - 1310785536) / 2 ^ 15 = (- 2 :: rat)"
  by (simp add: RawDataProcess_off) (simp add: formula_defs dev_low_C fp_eval)

text \<open>
  Claim C1, amended.  With compensation disabled, or with a first-order temperature of
  2000 or more, \<^verbatim>\<open>MS5611_RawDataProcess\<close> computes \<open>dT = D2 - C[5]\<close>, the temperature
  \<open>2000 + dT * C[6]\<close> truncated toward zero, \<open>OFFSET = C[2] + dT * C[4]\<close>,
  \<open>SENS = C[1] + dT * C[3]\<close> and the pressure
  \<open>(D1 * SENS * 4.76837158205E-7 - OFFSET) * 3.051757813E-5\<close> truncated toward zero, in
  the floating-point arithmetic of the C expressions.
\<close>

theorem RawDataProcess_first_order:
  assumes "compensation = 0 \<or> (\<forall>T. first_order_TEMP dev D2 = Some T \<longrightarrow> 2000 \<le> sint T)"
  shows "MS5611_RawDataProcess dev D1 D2 compensation = first_order_with pressure_dec dev D1 D2"
proof (cases "compensation = 0")
  case True
  then show ?thesis
    by (simp add: RawDataProcess_off)
next
  case False
  show ?thesis
  proof (cases "first_order_TEMP dev D2")
    case None
    then show ?thesis
      by (simp add: RawDataProcess_no_TEMP first_order_no_TEMP)
  next
    case (Some T)
    with assms False have "2000 \<le> sint T"
      by simp
    with Some show ?thesis
      by (rule RawDataProcess_warm)
  qed
qed

theorem RawDataProcess_first_order_witness:
  "first_order_TEMP dev_datasheet 8569150 = Some 2007
   \<and> MS5611_RawDataProcess dev_datasheet 9085466 8569150 1
       = Some \<lparr>temperature = 2007, pressure = 100009\<rparr>"
proof -
  have T: "first_order_TEMP dev_datasheet 8569150 = Some 2007"
    by (simp add: formula_defs dev_datasheet_C fp_eval)
  then have h: "(1 :: i8) = 0 \<or> (\<forall>T. first_order_TEMP dev_datasheet 8569150 = Some T \<longrightarrow> 2000 \<le> sint T)"
    by simp
  from RawDataProcess_first_order [OF h, of 9085466] T show ?thesis
    by (simp add: ev1)
qed

text \<open>
  Claim C2, as stated, fails for a first-order temperature below -44340: the square of
  \<open>TEMP - 2000\<close> is a product of \<^verbatim>\<open>int32_t\<close> values and overflows, which is undefined
  behaviour.  The handle initialised with the calibration words 40000 for \<open>C[5]\<close> and
  \<open>C[6]\<close> gets, with \<open>D2 = 0\<close>, the first-order temperature -46828 and no defined result,
  where the formulas of the claim give the temperature -95656 and the pressure 213378.
\<close>

theorem second_order_overflow_counterexample:
  "first_order_TEMP dev_cold 0 = Some (- 46828)
   \<and> MS5611_RawDataProcess dev_cold 2097152 0 1 = None
   \<and> compensated dev_cold 2097152 0 = Some \<lparr>temperature = - 95656, pressure = 213378\<rparr>"
proof -
  have T: "first_order_TEMP dev_cold 0 = Some (- 46828)"
    by (simp add: formula_defs dev_cold_C fp_eval)
  have "MS5611_RawDataProcess dev_cold 2097152 0 1 = None"
    by (rule RawDataProcess_undefined [OF _ T]) simp_all
  moreover have "compensated dev_cold 2097152 0 = Some \<lparr>temperature = - 95656, pressure = 213378\<rparr>"
    by (simp add: formula_defs dev_cold_C fp_eval Let_def)
  ultimately show ?thesis
    using T by simp
qed

text \<open>
  Claim C2, amended.  With compensation enabled and a first-order temperature \<open>TEMP\<close> of
  at least -44340, the second-order correction is applied exactly when \<open>TEMP < 2000\<close>
  (not at 2000), and then \<open>OFFSET2 = 2.5 * (TEMP - 2000)\<^sup>2\<close> and
  \<open>SENS2 = 1.25 * (TEMP - 2000)\<^sup>2\<close>, to which \<open>7 * (TEMP + 1500)\<^sup>2\<close> and
  \<open>5.5 * (TEMP + 1500)\<^sup>2\<close> are added exactly when \<open>TEMP < -1500\<close>; both tests are on the
  first-order \<open>TEMP\<close>, after which \<open>dT\<^sup>2 * 4.6566128731E-10\<close> is subtracted from \<open>TEMP\<close>,
  \<open>OFFSET2\<close> from \<open>OFFSET\<close> and \<open>SENS2\<close> from \<open>SENS\<close>.
\<close>

theorem RawDataProcess_second_order:
  assumes "compensation \<noteq> 0"
    and "\<forall>T. first_order_TEMP dev D2 = Some T \<longrightarrow> - 44340 \<le> sint T"
  shows "MS5611_RawDataProcess dev D1 D2 compensation = compensated dev D1 D2"
proof (cases "first_order_TEMP dev D2")
  case None
  then show ?thesis
    by (simp add: RawDataProcess_no_TEMP compensated_no_TEMP)
next
  case (Some T)
  with assms have lo: "- 44340 \<le> sint T"
    by simp
  show ?thesis
  proof (cases "sint T < (2000 :: int)")
    case True
    from assms(1) Some True lo show ?thesis
      by (rule RawDataProcess_cold)
  next
    case False
    then have warm: "2000 \<le> sint T"
      by simp
    have "MS5611_RawDataProcess dev D1 D2 compensation = first_order_with pressure_dec dev D1 D2"
      using Some warm by (rule RawDataProcess_warm)
    also have "\<dots> = compensated dev D1 D2"
      using Some False by (simp add: first_order_with_def compensated_def)
    finally show ?thesis .
  qed
qed

theorem RawDataProcess_second_order_witness:
  "first_order_TEMP dev_datasheet 0 = Some (- 26913)
   \<and> MS5611_RawDataProcess dev_datasheet 9085466 0 1
       = Some \<lparr>temperature = - 61087, pressure = - 361642\<rparr>"
proof -
  have h1: "(1 :: i8) \<noteq> 0"
    by simp
  have h2: "\<forall>T. first_order_TEMP dev_datasheet 0 = Some T \<longrightarrow> - 44340 \<le> sint T"
    by (simp add: ev3)
  from RawDataProcess_second_order [OF h1 h2, of 9085466] show ?thesis
    by (simp add: ev2 ev3)
qed

section \<open>The measurement cycle\<close>

lemma bind_Some_map: "Option.bind m (\<lambda>x. Some (f x)) = map_option f m"
  by (cases m) simp_all

lemma GetData_cycle:
  "MS5611_GetData dev w =
     (case cycle_reads dev w of ((r1, D1), (r2, D2), w') \<Rightarrow>
        map_option (\<lambda>data. ((r1 OR r2, centi_out (temperature data), centi_out (pressure data)), w'))
          (MS5611_RawDataProcess dev D1 D2 1))"
  by (simp add: MS5611_GetData_def cycle_reads_def centi_out_def MS5611_OK_def split_beta Let_def
      bind_Some_map)

lemma dev_cold_TEMP: "first_order_TEMP dev_cold 0 = Some (- 46828)"
  by (simp add: formula_defs dev_cold_C fp_eval)

lemma dev_cold_reads: "cycle_reads dev_cold 0 = ((0, 0), (0, 0), 2)"
  unfolding dev_cold_def mock_Init_dev
  by (simp add: cycle_reads_def MS5611_Convert_def MS5611_AdcRead_def
      mock_dev_def MS5611_NewDevice_def mock_read_def adc_none_def MS5611_CMD_ADC_READ_def Let_def)

lemma prom_cold_Init: "fst (fst (MS5611_Init (mock_dev prom_cold adc_none) 0)) = 0"
proof -
  have "\<not> (\<exists>k\<in>{1..<7}. prom_word (mock_dev prom_cold adc_none) 0 k = 0)"
    by (auto simp: mock_prom_word lt7 prom_cold_def prom_of_def)
  then show ?thesis
    by (simp add: Init_explicit mock_after_reset MS5611_OK_def)
qed

text \<open>
  Claim C6, as stated, fails for some device states: where the compensation of the samples
  read is undefined in C, the cycle has no defined status and no defined outputs.  The
  handle initialised, with status 0, on the calibration words 40000 for \<open>C[5]\<close> and \<open>C[6]\<close>
  reads the samples 0 and 0, both with status 0; the first-order temperature is -46828,
  the square of \<open>TEMP - 2000\<close> overflows \<^verbatim>\<open>int32_t\<close>, and the measurement cycle has no
  defined result.
\<close>

theorem GetData_undefined_counterexample:
  "fst (fst (MS5611_Init (mock_dev prom_cold adc_none) 0)) = 0
   \<and> cycle_reads dev_cold 0 = ((0, 0), (0, 0), 2)
   \<and> first_order_TEMP dev_cold 0 = Some (- 46828)
   \<and> MS5611_RawDataProcess dev_cold 0 0 1 = None
   \<and> MS5611_GetData dev_cold 0 = None"
proof -
  have r: "MS5611_RawDataProcess dev_cold 0 0 1 = None"
    by (rule RawDataProcess_undefined [OF _ dev_cold_TEMP]) simp_all
  then have "MS5611_GetData dev_cold 0 = None"
    by (simp add: GetData_cycle dev_cold_reads)
  with r show ?thesis
    by (simp add: prom_cold_Init dev_cold_reads dev_cold_TEMP)
qed

text \<open>
  Claim C6, amended.  Let the two ADC reads of a cycle return the statuses \<open>r1\<close>, \<open>r2\<close> and
  the samples \<open>D1\<close>, \<open>D2\<close>, and let the compensation of \<open>D1\<close> and \<open>D2\<close> be defined.  Then
  the status of \<^verbatim>\<open>MS5611_GetData\<close> is \<open>r1 OR r2\<close>, the writes of the two convert commands
  adding nothing, and it is nonzero exactly when one of the two is.  Whatever the statuses
  are, the outputs are the temperature and the pressure that \<^verbatim>\<open>MS5611_RawDataProcess\<close>
  computes from \<open>D1\<close> and \<open>D2\<close> with compensation, divided by 100.
\<close>

theorem GetData_status_is_or_of_reads:
  assumes "cycle_reads dev w = ((r1, D1), (r2, D2), w')"
    and "MS5611_RawDataProcess dev D1 D2 1 = Some data"
  shows "MS5611_GetData dev w =
           Some ((r1 OR r2, centi_out (temperature data), centi_out (pressure data)), w')
         \<and> (r1 OR r2 \<noteq> 0 \<longleftrightarrow> r1 \<noteq> 0 \<or> r2 \<noteq> 0)"
  using assms by (simp add: GetData_cycle or_eq_0_iff)

theorem GetData_status_is_or_of_reads_witness:
  "cycle_reads dev_datasheet 0 = ((0, 9085466), (1, 8569150), 2)
   \<and> MS5611_RawDataProcess dev_datasheet 9085466 8569150 1
       = Some \<lparr>temperature = 2007, pressure = 100009\<rparr>
   \<and> MS5611_GetData dev_datasheet 0
       = Some ((1, Fin (2630615 / 131072), Fin (16385475 / 16384)), 2)"
proof -
  have c: "cycle_reads dev_datasheet 0 = ((0, 9085466), (1, 8569150), 2)"
    by (simp add: cycle_reads_def dev_datasheet_eq MS5611_Convert_def MS5611_AdcRead_def
        mock_dev_def MS5611_NewDevice_def mock_read_def adc_datasheet_def MS5611_CMD_ADC_READ_def
        Let_def)
  have "first_order_TEMP dev_datasheet 8569150 = Some 2007"
    by (simp add: formula_defs dev_datasheet_C fp_eval)
  then have r: "MS5611_RawDataProcess dev_datasheet 9085466 8569150 1
      = Some \<lparr>temperature = 2007, pressure = 100009\<rparr>"
    by (simp add: RawDataProcess_warm ev1)
  from GetData_status_is_or_of_reads [OF c r] show ?thesis
    by (simp add: c r centi_out_def fp_eval)
qed

text \<open>
  Claim C10.  A handle from \<^verbatim>\<open>MS5611_NewDevice\<close> has the configuration of all zeros: the
  rate of ordinal 0, conversion time 0 and the seven coefficients 0.  The conversion time
  is then not the table value of the rate, and a measurement cycle on such a handle sends
  the convert commands \<^verbatim>\<open>0x40\<close> and \<^verbatim>\<open>0x50\<close> and waits 0 ms after each before it reads.
\<close>

theorem NewDevice_zero_config:
  "config (MS5611_NewDevice i t rd wr dl) = \<lparr>osRate = MS5611_ULTRA_LOW_POWER, ct = 0, C = (\<lambda>k. Fin 0)\<rparr>
   \<and> osr_ord (MS5611_GetOSRate (MS5611_NewDevice i t rd wr dl)) = 0
   \<and> map (C (config (MS5611_NewDevice i t rd wr dl))) [0, 1, 2, 3, 4, 5, 6] = replicate 7 (Fin 0)
   \<and> ct (config (MS5611_NewDevice i t rd wr dl))
        \<noteq> osrToConversitonTime (osRate (config (MS5611_NewDevice i t rd wr dl)))
   \<and> MS5611_GetData (MS5611_NewDevice i t rd wr dl) w =
       (let w2 = dl 0 (snd (wr i 0x40 [] 0 w));
            ((r1, D1), w3) = MS5611_AdcRead (MS5611_NewDevice i t rd wr dl) w2;
            w5 = dl 0 (snd (wr i 0x50 [] 0 w3));
            ((r2, D2), w6) = MS5611_AdcRead (MS5611_NewDevice i t rd wr dl) w5
        in map_option (\<lambda>data. ((r1 OR r2, centi_out (temperature data), centi_out (pressure data)), w6))
             (MS5611_RawDataProcess (MS5611_NewDevice i t rd wr dl) D1 D2 1))"
  by (simp add: GetData_cycle cycle_reads_def MS5611_Convert_def MS5611_NewDevice_def
      MS5611_GetOSRate_def MS5611_CMD_CONV_D1_def MS5611_CMD_CONV_D2_def split_beta Let_def
      eval_nat_numeral)

section \<open>Slot 0 and repeated loads\<close>

text \<open>
  Claim C4, as stated, fails: the loader runs over the seven slots 0 to 6, and slot 0 is
  multiplied by the word read at \<^verbatim>\<open>0xA0\<close> like the others.  With the word 2 there, the
  coefficient of slot 0 is 1 after \<^verbatim>\<open>MS5611_InitConstants\<close> and 2 after the load.
\<close>

theorem slot0_counterexample:
  "C (config (MS5611_InitConstants (mock_dev prom_low adc_none) 0)) 0 = Fin 1
   \<and> C (config (snd (fst (MS5611_PROM (MS5611_InitConstants (mock_dev prom_low adc_none) 0) 0)))) 0 = Fin 2
   \<and> C (config (snd (fst (MS5611_PROM (MS5611_InitConstants (mock_dev prom_low adc_none) 0) 0)))) 0 \<noteq> Fin 1"
  by (simp add: PROM_eq PROM_state_def loaded_upto_def InitConstants_std mock_prom_word
      prom_low_def prom_of_def fp_eval)

text \<open>
  Claim C4, amended.  The coefficient of slot 0 is 1 after \<^verbatim>\<open>MS5611_InitConstants\<close>.  The
  loader also reads slot 0, at \<^verbatim>\<open>0xA0\<close>, and multiplies the coefficient by the word read;
  so after \<^verbatim>\<open>MS5611_InitConstants\<close> and a load the coefficient of slot 0 is that word.
  Slot 0 is unused: the result of \<^verbatim>\<open>MS5611_RawDataProcess\<close> does not depend on it.
\<close>

theorem slot0_holds_word0:
  "C (config (MS5611_InitConstants dev mathMode)) 0 = Fin 1
   \<and> C (config (snd (fst (MS5611_PROM dev w)))) 0
       = f32_mul (C (config dev) 0) (f32_of_int (uint (fst (MS5611_ReadPROM dev 0 w))))
   \<and> C (config (snd (fst (MS5611_PROM (MS5611_InitConstants dev mathMode) w)))) 0
       = Fin (of_int (uint (fst (MS5611_ReadPROM dev 0 w))))
   \<and> MS5611_RawDataProcess (dev\<lparr>config := (config dev)\<lparr>C := (C (config dev)) (0 := x)\<rparr>\<rparr>) D1 D2 c
       = MS5611_RawDataProcess dev D1 D2 c"
proof -
  have one: "C (config (MS5611_InitConstants dev mathMode)) 0 = Fin 1"
    by (simp add: MS5611_InitConstants_def Let_def fp_eval)
  have w0: "prom_word d w 0 = fst (MS5611_ReadPROM d 0 w)" for d :: "('a, 'b) MS5611_Device"
    by (simp add: prom_word_def)
  have load: "C (config (snd (fst (MS5611_PROM d w)))) 0
       = f32_mul (C (config d) 0) (f32_of_int (uint (fst (MS5611_ReadPROM d 0 w))))"
    for d :: "('a, 'b) MS5611_Device"
    by (simp add: PROM_eq PROM_state_def loaded_upto_def w0)
  have rd: "MS5611_ReadPROM (MS5611_InitConstants dev mathMode) 0 w = MS5611_ReadPROM dev 0 w"
    by (simp add: MS5611_InitConstants_def Let_def)
  have unused: "MS5611_RawDataProcess (dev\<lparr>config := (config dev)\<lparr>C := (C (config dev)) (0 := x)\<rparr>\<rparr>) D1 D2 c
       = MS5611_RawDataProcess dev D1 D2 c"
    by (simp add: MS5611_RawDataProcess_def Let_def cong: if_cong)
  show ?thesis
    using f32_mul_one_u16 [of "fst (MS5611_ReadPROM dev 0 w)"]
    by (simp add: load one rd unused)
qed

lemma PROM_C: "C (config (snd (fst (MS5611_PROM dev w)))) = loaded_upto 7 dev w"
  by (simp add: PROM_eq PROM_state_def)

lemma PROM_twice_C:
  "C (config (snd (fst (PROM_twice dev w)))) =
     loaded_upto 7 (snd (fst (MS5611_PROM dev w))) (prom_world dev w 7)"
  by (simp add: PROM_twice_def split_beta PROM_C) (simp add: PROM_eq PROM_state_def)

lemma prom_datasheet_words:
  "prom_datasheet 0xA0 = 7" "prom_datasheet 0xA2 = 40127" "prom_datasheet 0xA4 = 36924"
  "prom_datasheet 0xA6 = 23317" "prom_datasheet 0xA8 = 23282" "prom_datasheet 0xAA = 33464"
  "prom_datasheet 0xAC = 28312"
  by (simp_all add: prom_datasheet_def prom_of_def)

text \<open>
  Claim C9.  The loader multiplies in place, so it is not idempotent: when a second run
  reads the same words as the first, every slot \<open>k\<close> ends as the value it had before the
  first run multiplied by the word of \<open>k\<close> twice, each a \<^verbatim>\<open>float\<close> product.
  \<^verbatim>\<open>MS5611_Init\<close> sets the base constants before it loads, so the coefficients it leaves
  are the base constants times the words it reads, whatever was stored before.
\<close>

theorem PROM_not_idempotent:
  assumes "\<forall>k<7. prom_word dev (prom_world dev w 7) k = prom_word dev w k"
  shows "C (config (snd (fst (PROM_twice dev w)))) =
           (\<lambda>k. if k < 7
                then f32_mul (f32_mul (C (config dev) k) (f32_of_int (uint (prom_word dev w k))))
                       (f32_of_int (uint (prom_word dev w k)))
                else C (config dev) k)
         \<and> map (C (config (snd (fst (MS5611_Init dev w))))) [0, 1, 2, 3, 4, 5, 6] =
             [Fin (of_int (uint (prom_word dev (delayf dev 20 (MS5611_Reset dev w)) 0))),
              Fin (32768 * of_int (uint (prom_word dev (delayf dev 20 (MS5611_Reset dev w)) 1))),
              Fin (65536 * of_int (uint (prom_word dev (delayf dev 20 (MS5611_Reset dev w)) 2))),
              Fin (of_int (uint (prom_word dev (delayf dev 20 (MS5611_Reset dev w)) 3)) / 256),
              Fin (of_int (uint (prom_word dev (delayf dev 20 (MS5611_Reset dev w)) 4)) / 128),
              Fin (256 * of_int (uint (prom_word dev (delayf dev 20 (MS5611_Reset dev w)) 5))),
              Fin (of_int (uint (prom_word dev (delayf dev 20 (MS5611_Reset dev w)) 6)) / 8388608)]"
proof (intro conjI)
  show "C (config (snd (fst (PROM_twice dev w)))) =
           (\<lambda>k. if k < 7
                then f32_mul (f32_mul (C (config dev) k) (f32_of_int (uint (prom_word dev w k))))
                       (f32_of_int (uint (prom_word dev w k)))
                else C (config dev) k)"
    using assms
    by (intro ext) (simp add: PROM_twice_C PROM_eq PROM_state_def loaded_upto_def)
  have "MS5611_Init dev w =
      MS5611_PROM (MS5611_InitConstants (MS5611_SetOSRate dev MS5611_ULTRA_HIGH_RES) 0)
        (delayf dev 20 (MS5611_Reset dev w))"
    by (simp add: Init_eq PROM_eq)
  moreover have "prom_word (MS5611_SetOSRate dev MS5611_ULTRA_HIGH_RES) v k = prom_word dev v k" for v k
    by (simp add: MS5611_SetOSRate_def)
  ultimately
  show "map (C (config (snd (fst (MS5611_Init dev w))))) [0, 1, 2, 3, 4, 5, 6] =
             [Fin (of_int (uint (prom_word dev (delayf dev 20 (MS5611_Reset dev w)) 0))),
              Fin (32768 * of_int (uint (prom_word dev (delayf dev 20 (MS5611_Reset dev w)) 1))),
              Fin (65536 * of_int (uint (prom_word dev (delayf dev 20 (MS5611_Reset dev w)) 2))),
              Fin (of_int (uint (prom_word dev (delayf dev 20 (MS5611_Reset dev w)) 3)) / 256),
              Fin (of_int (uint (prom_word dev (delayf dev 20 (MS5611_Reset dev w)) 4)) / 128),
              Fin (256 * of_int (uint (prom_word dev (delayf dev 20 (MS5611_Reset dev w)) 5))),
              Fin (of_int (uint (prom_word dev (delayf dev 20 (MS5611_Reset dev w)) 6)) / 8388608)]"
    using PROM_after_InitConstants [of "MS5611_SetOSRate dev MS5611_ULTRA_HIGH_RES"
        "delayf dev 20 (MS5611_Reset dev w)"]
    by (simp del: list.map)
qed

theorem PROM_not_idempotent_witness:
  "map (C (config (snd (fst (MS5611_PROM (MS5611_InitConstants (mock_dev prom_datasheet adc_none) 0) 0)))))
     [0, 1, 2, 3, 4, 5, 6]
     = [Fin 7, Fin 1314881536, Fin 2419851264, Fin (23317 / 256), Fin (11641 / 64), Fin 8566784,
        Fin (3539 / 1048576)]
   \<and> map (C (config (snd (fst (PROM_twice (MS5611_InitConstants (mock_dev prom_datasheet adc_none) 0) 0)))))
     [0, 1, 2, 3, 4, 5, 6]
     = [Fin 49, Fin 52762251362304, Fin 89350587023360, Fin (8495039 / 4), Fin (8469555 / 2),
        Fin 286678843392, Fin (12524521 / 131072)]"
proof -
  let ?d = "MS5611_InitConstants (mock_dev prom_datasheet adc_none) 0"
  have words: "prom_word ?d v k = prom_datasheet (0xA0 + 2 * of_nat k)" if "k < 7" for k v
    using that by (simp add: InitConstants_std mock_prom_word)
  have world: "prom_world ?d 0 7 = 0"
    by (simp add: InitConstants_std mock_prom_world)
  have same: "\<forall>k<7. prom_word ?d (prom_world ?d 0 7) k = prom_word ?d 0 k"
    unfolding world by simp
  have c: "C (config ?d) = (\<lambda>k. Fin 0) (0 := Fin 1, 1 := Fin 32768, 2 := Fin 65536, 3 := Fin (1 / 256),
        4 := Fin (1 / 128), 5 := Fin 256, 6 := Fin (1 / 8388608))"
    by (simp add: InitConstants_std mock_config)
  have once: "map (C (config (snd (fst (MS5611_PROM ?d 0))))) [0, 1, 2, 3, 4, 5, 6]
     = [Fin 7, Fin 1314881536, Fin 2419851264, Fin (23317 / 256), Fin (11641 / 64), Fin 8566784,
        Fin (3539 / 1048576)]"
    by (simp add: PROM_C loaded_upto_def words c prom_datasheet_words) (simp add: fp_eval)
  from PROM_not_idempotent [OF same, THEN conjunct1]
  have "map (C (config (snd (fst (PROM_twice ?d 0))))) [0, 1, 2, 3, 4, 5, 6]
     = [Fin 49, Fin 52762251362304, Fin 89350587023360, Fin (8495039 / 4), Fin (8469555 / 2),
        Fin 286678843392, Fin (12524521 / 131072)]"
    by (simp add: words c prom_datasheet_words) (simp add: fp_eval)
  with once show ?thesis
    by simp
qed

end
